theory Spec2Isabelle
  imports Complex_Main "HOL-Library.AList" "HOL-Library.Char_ord" "HOL-Library.List_Lexorder" "HOL-Library.Multiset"
begin

section \<open>Values shared by the packages\<close>

text \<open>
  A Go \<^verbatim>\<open>string\<close> and a \<^verbatim>\<open>[]byte\<close> are both byte sequences; the conversion
  \<^verbatim>\<open>string(p)\<close> copies the bytes unchanged. Both are modelled as \<^typ>\<open>string\<close>
  (a list of 8-bit characters). With \<^verbatim>\<open>Char_ord\<close> and \<^verbatim>\<open>List_Lexorder\<close> the order
  \<open><\<close> on \<^typ>\<open>string\<close> is the bytewise lexicographic order, which is Go's
  \<^verbatim>\<open><\<close> on strings.

  A Go \<^verbatim>\<open>error\<close> is a value with a message (\<^verbatim>\<open>err.Error()\<close>); every error of
  this program is made by \<^verbatim>\<open>fmt.Errorf\<close> or comes from a library.
\<close>

datatype error = Error (Error_msg: string)

section \<open>Package gemini: the response value and text extraction\<close>

text \<open>
  \<^verbatim>\<open>genai.Part\<close> is an interface; \<^verbatim>\<open>genai.Text\<close> is its string implementation, the
  other implementations (blobs, function calls, ...) carry no text and are kept as one
  constructor with an opaque payload. \<^verbatim>\<open>Candidate.Content\<close> is a pointer that may be
  nil.
\<close>

datatype Part = Text string | OtherPart string

record Content =
  Parts :: "Part list"
  Role :: string

record Candidate =
  Index :: int
  Content :: "Content option"

record GenerateContentResponse =
  Candidates :: "Candidate list"

text \<open>
  \<^verbatim>\<open>responseToString\<close> (internal/gemini/client.go): two nested \<^verbatim>\<open>range\<close> loops
  that extend the variable \<^verbatim>\<open>result\<close> with \<^verbatim>\<open>+=\<close>. Each loop is a recursion that
  passes the accumulator on.
\<close>

fun responseToString_parts :: "string \<Rightarrow> Part list \<Rightarrow> string" where
  "responseToString_parts result [] = result"
| "responseToString_parts result (part # parts) =
     (case part of
        Text text \<Rightarrow> responseToString_parts (result @ text) parts
      | OtherPart _ \<Rightarrow> responseToString_parts result parts)"

fun responseToString_candidates :: "string \<Rightarrow> Candidate list \<Rightarrow> string" where
  "responseToString_candidates result [] = result"
| "responseToString_candidates result (candidate # cs) =
     (case Content candidate of
        Some content \<Rightarrow>
          responseToString_candidates (responseToString_parts result (Parts content)) cs
      | None \<Rightarrow> responseToString_candidates result cs)"

definition responseToString :: "GenerateContentResponse \<Rightarrow> string" where
  "responseToString resp = responseToString_candidates [] (Candidates resp)"

section \<open>The functions of Go's \<^verbatim>\<open>strings\<close> package that the code calls\<close>

definition nl :: string where
  "nl = [CHR 0x0A]"

definition HasPrefix :: "string \<Rightarrow> string \<Rightarrow> bool" where
  "HasPrefix s pre = (length pre \<le> length s \<and> take (length pre) s = pre)"

definition TrimPrefix :: "string \<Rightarrow> string \<Rightarrow> string" where
  "TrimPrefix s pre = (if HasPrefix s pre then drop (length pre) s else s)"

text \<open>
  \<^verbatim>\<open>strings.Split(s, sep)\<close> for a separator of one byte (the code only splits at
  \<^verbatim>\<open>"/"\<close>): the pieces between the separators, so one piece more than there are
  separators, and the one empty piece for the empty string. The accumulator \<open>piece\<close>
  is the piece being read.
\<close>

fun Split_from :: "string \<Rightarrow> string \<Rightarrow> char \<Rightarrow> string list" where
  "Split_from piece [] sep = [piece]"
| "Split_from piece (c # s) sep =
     (if c = sep then piece # Split_from [] s sep else Split_from (piece @ [c]) s sep)"

definition Split :: "string \<Rightarrow> char \<Rightarrow> string list" where
  "Split s sep = Split_from [] s sep"

section \<open>Package ui\<close>

text \<open>
  The libraries that style text (Lipgloss, Color) and render Markdown (Glamour) and the
  view of the text input widget are outside the repository; what they return is a
  parameter. \<open>Render\<close> is \<^verbatim>\<open>lipgloss.Style.Render\<close> for the styles the code uses
  (\<open>GrayStyle\<close> is the style the chat view builds for its hints),
  \<open>glamour_NewTermRenderer\<close> the result of \<^verbatim>\<open>glamour.NewTermRenderer\<close>: an error, or
  a renderer whose \<^verbatim>\<open>Render\<close> returns an error or the rendered text.
\<close>

datatype Style = TitleStyle | UserPromptStyle | AIResponseStyle | GrayStyle

type_synonym renderer = "string \<Rightarrow> error + string"

record textinput =
  Value :: string

record UI =
  Render :: "Style \<Rightarrow> string \<Rightarrow> string"
  ErrorPrefix :: string
  SuccessPrefix :: string
  glamour_NewTermRenderer :: "error + renderer"
  textInput_View :: "textinput \<Rightarrow> string"

definition RenderMarkdownWithGlamour :: "UI \<Rightarrow> string \<Rightarrow> error + string" where
  "RenderMarkdownWithGlamour ui markdown =
     (case glamour_NewTermRenderer ui of
        Inl e \<Rightarrow> Inl (Error (''failed to create markdown renderer: '' @ Error_msg e))
      | Inr r \<Rightarrow>
          (case r markdown of
             Inl e \<Rightarrow> Inl (Error (''failed to render markdown: '' @ Error_msg e))
           | Inr rendered \<Rightarrow> Inr rendered))"

definition RenderTitle :: "UI \<Rightarrow> string \<Rightarrow> string" where
  "RenderTitle ui text = Render ui TitleStyle text"

definition RenderUserPrompt :: "UI \<Rightarrow> string \<Rightarrow> string" where
  "RenderUserPrompt ui text = Render ui UserPromptStyle ''You: '' @ '' '' @ text"

section \<open>Package gemini: the client\<close>

text \<open>
  \<^verbatim>\<open>genai.GenerativeModel\<close> is the handle of one backend model: the name it was made
  for and its settings, of which the code sets \<^verbatim>\<open>Temperature\<close> (a \<^verbatim>\<open>*float32\<close>,
  here the decimal the source writes, as a rational). \<^verbatim>\<open>genai.Client.GenerativeModel\<close>
  builds the handle locally, without asking the backend, and cannot fail.
\<close>

record GenerativeModel =
  gm_name :: string
  Temperature :: "rat option"

definition genai_GenerativeModel :: "string \<Rightarrow> GenerativeModel" where
  "genai_GenerativeModel name = \<lparr>gm_name = name, Temperature = None\<rparr>"

text \<open>
  \<^verbatim>\<open>gemini.Client\<close>: its fields \<^verbatim>\<open>client\<close> (the connection) and \<^verbatim>\<open>ctx\<close> are set once
  by \<^verbatim>\<open>NewClient\<close> and never change; only \<^verbatim>\<open>model\<close> is assigned afterwards.
\<close>

record Client =
  model :: GenerativeModel

text \<open>
  A \<^verbatim>\<open>*genai.ChatSession\<close> is a pointer to a session object, which holds the pointer
  to the \<^verbatim>\<open>GenerativeModel\<close> it was started from. \<open>cs_id\<close> is the identity of the
  object (two sessions are the same object when the ids agree).
\<close>

record ChatSession =
  cs_id :: nat
  cs_model :: GenerativeModel

text \<open>
  The process has one \<^verbatim>\<open>gemini.Client\<close> object; every \<^verbatim>\<open>*gemini.Client\<close> in the
  program points to it, so it lives in the state of the process and a method with a
  pointer receiver returns the state after the call. \<open>sessions_started\<close> counts the
  \<^verbatim>\<open>ChatSession\<close> objects allocated so far and names the next one.
\<close>

record Process =
  client :: Client
  sessions_started :: nat

definition SwitchModel :: "Client \<Rightarrow> string \<Rightarrow> error + Client" where
  "SwitchModel c modelName =
     (if modelName = [] then Inl (Error ''model name cannot be empty'')
      else Inr (c\<lparr>model := (genai_GenerativeModel modelName)\<lparr>Temperature := Some (7 / 10)\<rparr>\<rparr>))"

definition StartChat :: "Process \<Rightarrow> ChatSession \<times> Process" where
  "StartChat ps =
     (\<lparr>cs_id = sessions_started ps, cs_model = model (client ps)\<rparr>,
      ps\<lparr>sessions_started := Suc (sessions_started ps)\<rparr>)"

text \<open>
  \<^verbatim>\<open>genai.ModelInfo\<close>, with the fields the code reads.
\<close>

record ModelInfo =
  Name :: string
  BaseModelID :: string
  Version :: string

text \<open>
  The remote service is outside the repository. What it answers is a parameter:
  \<open>genai_NewClient\<close> is the error of \<^verbatim>\<open>genai.NewClient\<close> for an API key, if any;
  \<open>listModelsIter\<close> is what the iterator of \<^verbatim>\<open>genai.Client.ListModels\<close> yields (the
  models before it ends, and the error it ends with, if any); \<open>sendMessage\<close> is the
  result of \<^verbatim>\<open>ChatSession.SendMessage\<close>, \<open>generateContent\<close> that of
  \<^verbatim>\<open>GenerativeModel.GenerateContent\<close>, and \<open>generateContentStream\<close> what the iterator
  of \<^verbatim>\<open>GenerateContentStream\<close> yields before \<^verbatim>\<open>io.EOF\<close> or an error.
\<close>

record Backend =
  genai_NewClient :: "string \<Rightarrow> error option"
  listModelsIter :: "ModelInfo list \<times> error option"
  sendMessage :: "ChatSession \<Rightarrow> string \<Rightarrow> error + GenerateContentResponse"
  generateContent :: "GenerativeModel \<Rightarrow> string \<Rightarrow> error + GenerateContentResponse"
  generateContentStream :: "GenerativeModel \<Rightarrow> string \<Rightarrow> GenerateContentResponse list \<times> error option"

text \<open>
  \<^verbatim>\<open>NewClient\<close>, \<^verbatim>\<open>GenerateText\<close>: the errors of the library are wrapped with
  \<^verbatim>\<open>fmt.Errorf("...: %v", err)\<close>, which prints the message of \<^verbatim>\<open>err\<close>.
\<close>

definition NewClient :: "Backend \<Rightarrow> string \<Rightarrow> string \<Rightarrow> error + Client" where
  "NewClient b apiKey modelName =
     (let modelName = (if modelName = [] then ''gemini-1.5-pro-latest'' else modelName)
      in case genai_NewClient b apiKey of
           Some e \<Rightarrow> Inl (Error (''failed to create Gemini client: '' @ Error_msg e))
         | None \<Rightarrow>
             Inr \<lparr>model = (genai_GenerativeModel modelName)\<lparr>Temperature := Some (7 / 10)\<rparr>\<rparr>)"

definition GenerateText :: "Backend \<Rightarrow> Client \<Rightarrow> string \<Rightarrow> error + string" where
  "GenerateText b c prompt =
     (case generateContent b (model c) prompt of
        Inl e \<Rightarrow> Inl (Error (''failed to generate content: '' @ Error_msg e))
      | Inr resp \<Rightarrow> Inr (responseToString resp))"

text \<open>
  \<^verbatim>\<open>Client.ListModels\<close>: the loop appends every model the iterator yields; when the
  iterator ends with an error the models read so far are dropped and the wrapped error
  is returned.
\<close>

definition ListModels :: "Backend \<Rightarrow> error + ModelInfo list" where
  "ListModels b =
     (case listModelsIter b of
        (models, None) \<Rightarrow> Inr models
      | (models, Some err) \<Rightarrow> Inl (Error (''failed to list models: '' @ Error_msg err)))"

section \<open>Package cmd: the chat model\<close>

record message =
  content :: string
  isUser :: bool

text \<open>
  The text input widget (\<^verbatim>\<open>textinput.Model\<close> of the Bubbles library) is outside the
  repository. The code reads its value, resets it and passes every message on to its
  \<^verbatim>\<open>Update\<close>, which is a parameter; the commands the widget returns (cursor blinking)
  are tokens of their own, since the widget never returns \<^verbatim>\<open>tea.Quit\<close> or a command
  of this program.
\<close>

definition Reset :: "textinput \<Rightarrow> textinput" where
  "Reset ti = ti\<lparr>Value := []\<rparr>"

record chatModel =
  chatSession :: ChatSession
  messages :: "message list"
  textInput :: textinput
  err :: "error option"
  width :: int
  height :: int
  currentModel :: string

datatype KeyType = KeyCtrlC | KeyEnter | KeyOther string

datatype Msg =
    KeyMsg KeyType
  | responseMsg string
  | errorMsg error
  | WindowSizeMsg int int
  | QuitMsg
  | OtherMsg nat

text \<open>
  A \<^verbatim>\<open>tea.Cmd\<close> is a function the runtime calls later, on another goroutine. The five
  closures of \<^verbatim>\<open>Update\<close> are constructors that carry the variables they capture: the
  variable \<^verbatim>\<open>m\<close> (the method's own copy of the model; the receiver is a value, not a
  pointer) and \<^verbatim>\<open>newModel\<close> or \<^verbatim>\<open>userInput\<close>.
\<close>

datatype Cmd =
    CmdNil
  | Quit
  | SwitchModelCmd chatModel string
  | ListModelsCmd chatModel
  | HelpCmd
  | SendMessageCmd chatModel string
  | TextInputCmd nat

type_synonym textinput_Update = "textinput \<Rightarrow> Msg \<Rightarrow> textinput \<times> nat option"

definition widget_cmd :: "nat option \<Rightarrow> Cmd" where
  "widget_cmd c = (case c of None \<Rightarrow> CmdNil | Some t \<Rightarrow> TextInputCmd t)"

text \<open>
  \<^verbatim>\<open>chatModel.Update\<close>. The receiver \<open>m\<close> is a copy; the method returns the copy as
  it is at the \<^verbatim>\<open>return\<close>. A closure keeps a reference to that same variable, whose
  value at the return is the value returned.
\<close>

definition Update_tail :: "textinput_Update \<Rightarrow> chatModel \<Rightarrow> Msg \<Rightarrow> chatModel \<times> Cmd" where
  "Update_tail tiUpdate m msg =
     (let (ti, cmd) = tiUpdate (textInput m) msg
      in (m\<lparr>textInput := ti\<rparr>, widget_cmd cmd))"

definition Update_enter :: "chatModel \<Rightarrow> chatModel \<times> Cmd" where
  "Update_enter m0 =
     (if Value (textInput m0) = [] then (m0, CmdNil)
      else
        let userInput = Value (textInput m0);
            m = m0\<lparr>messages := messages m0 @ [\<lparr>content = userInput, isUser = True\<rparr>]\<rparr>;
            m = m\<lparr>textInput := Reset (textInput m)\<rparr>
        in if HasPrefix userInput ''/model '' then
             (let newModel = TrimPrefix userInput ''/model '' in (m, SwitchModelCmd m newModel))
           else if userInput = ''/models'' \<or> userInput = ''/list-models'' then (m, ListModelsCmd m)
           else if userInput = ''/help'' then (m, HelpCmd)
           else if userInput = ''/quit'' then (m, Quit)
           else (m, SendMessageCmd m userInput))"

fun Update :: "textinput_Update \<Rightarrow> chatModel \<Rightarrow> Msg \<Rightarrow> chatModel \<times> Cmd" where
  "Update tiUpdate m (KeyMsg KeyCtrlC) = (m, Quit)"
| "Update tiUpdate m (KeyMsg KeyEnter) = Update_enter m"
| "Update tiUpdate m (KeyMsg (KeyOther k)) = Update_tail tiUpdate m (KeyMsg (KeyOther k))"
| "Update tiUpdate m (responseMsg c) =
     Update_tail tiUpdate (m\<lparr>messages := messages m @ [\<lparr>content = c, isUser = False\<rparr>]\<rparr>) (responseMsg c)"
| "Update tiUpdate m (errorMsg e) = Update_tail tiUpdate (m\<lparr>err := Some e\<rparr>) (errorMsg e)"
| "Update tiUpdate m (WindowSizeMsg w h) =
     Update_tail tiUpdate (m\<lparr>width := w, height := h\<rparr>) (WindowSizeMsg w h)"
| "Update tiUpdate m QuitMsg = Update_tail tiUpdate m QuitMsg"
| "Update tiUpdate m (OtherMsg k) = Update_tail tiUpdate m (OtherMsg k)"

section \<open>Package cmd: the chat handler's inline extraction loop\<close>

text \<open>
  The loop of the regular-message command in \<^verbatim>\<open>chatModel.Update\<close>: the variable is
  \<^verbatim>\<open>aiResponse\<close>, the candidates are visited first to last, the parts of a non-nil
  content first to last, and a part that is a \<^verbatim>\<open>genai.Text\<close> is appended.
\<close>

fun aiResponse_parts :: "string \<Rightarrow> Part list \<Rightarrow> string" where
  "aiResponse_parts aiResponse [] = aiResponse"
| "aiResponse_parts aiResponse (Text text # parts) = aiResponse_parts (aiResponse @ text) parts"
| "aiResponse_parts aiResponse (OtherPart _ # parts) = aiResponse_parts aiResponse parts"

fun aiResponse_candidates :: "string \<Rightarrow> Candidate list \<Rightarrow> string" where
  "aiResponse_candidates aiResponse [] = aiResponse"
| "aiResponse_candidates aiResponse (candidate # cs) =
     (if Content candidate \<noteq> None
      then aiResponse_candidates (aiResponse_parts aiResponse (Parts (the (Content candidate)))) cs
      else aiResponse_candidates aiResponse cs)"

definition extractAiResponse :: "GenerateContentResponse \<Rightarrow> string" where
  "extractAiResponse resp = aiResponse_candidates [] (Candidates resp)"

section \<open>Package cmd: the commands of the chat model\<close>

text \<open>
  A Go \<^verbatim>\<open>map[string][]T\<close> is an association list with distinct keys. Reading a key
  that is absent gives the nil slice; assigning replaces the value of the key or adds
  the key. Go visits a map's keys in no fixed order; the code sorts the keys it
  collects, so the list of keys is taken in the order of the association list.
\<close>

type_synonym 'v gomap = "(string \<times> 'v list) list"

definition lookup :: "'v gomap \<Rightarrow> string \<Rightarrow> 'v list" where
  "lookup mp k = (case map_of mp k of None \<Rightarrow> [] | Some vs \<Rightarrow> vs)"

definition keys :: "'v gomap \<Rightarrow> string list" where
  "keys mp = map fst mp"

text \<open>
  The list-models command of the chat, first loop: the name after the last
  \<^verbatim>\<open>"/"\<close> of every model is appended to the slice of the model's base id.
  \<^verbatim>\<open>parts[len(parts)-1]\<close> is the last piece; \<^verbatim>\<open>Split\<close> never returns an empty
  slice.
\<close>

definition displayName :: "string \<Rightarrow> string" where
  "displayName name = (let parts = Split name (CHR ''/'') in last parts)"

fun chat_groupModels :: "string gomap \<Rightarrow> ModelInfo list \<Rightarrow> string gomap" where
  "chat_groupModels modelsByBase [] = modelsByBase"
| "chat_groupModels modelsByBase (info # models) =
     (let modelName = displayName (Name info)
      in chat_groupModels
           (AList.update (BaseModelID info) (lookup modelsByBase (BaseModelID info) @ [modelName])
              modelsByBase)
           models)"

text \<open>
  Second loop: for every base id of the sorted key list a heading, then the names of the
  group, sorted by \<^verbatim>\<open>sort.Strings\<close>, one bullet each. \<^verbatim>\<open>sort.Strings\<close> orders by
  \<open><\<close> on strings; strings that compare equal are equal, so its result is the one
  sorted arrangement of the slice.
\<close>

fun chat_writeNames :: "string \<Rightarrow> string list \<Rightarrow> string" where
  "chat_writeNames sb [] = sb"
| "chat_writeNames sb (name # names) = chat_writeNames (sb @ ''* **'' @ name @ ''**'' @ nl) names"

fun chat_writeGroups :: "string gomap \<Rightarrow> string \<Rightarrow> string list \<Rightarrow> string" where
  "chat_writeGroups modelsByBase sb [] = sb"
| "chat_writeGroups modelsByBase sb (baseID # baseModelIDs) =
     (let sb = sb @ ''## '' @ baseID @ nl @ nl;
          modelNames = sort (lookup modelsByBase baseID);
          sb = chat_writeNames sb modelNames;
          sb = sb @ nl
      in chat_writeGroups modelsByBase sb baseModelIDs)"

definition chat_modelsMarkdown :: "chatModel \<Rightarrow> ModelInfo list \<Rightarrow> string" where
  "chat_modelsMarkdown m models =
     (let sb = ''# Available Models'' @ nl @ nl;
          modelsByBase = chat_groupModels [] models;
          baseModelIDs = sort (keys modelsByBase);
          sb = chat_writeGroups modelsByBase sb baseModelIDs;
          sb = sb @ ''**Current model:** '' @ currentModel m @ nl @ nl;
          sb = sb @ ''To change models, type: `/model MODEL_NAME`''
      in sb)"

text \<open>
  The structure the second loop walks through: the sorted base ids, each with the sorted
  names of its group.
\<close>

definition chat_grouped :: "ModelInfo list \<Rightarrow> (string \<times> string list) list" where
  "chat_grouped models =
     (let modelsByBase = chat_groupModels [] models
      in map (\<lambda>baseID. (baseID, sort (lookup modelsByBase baseID))) (sort (keys modelsByBase)))"

definition chat_groupText :: "string \<times> string list \<Rightarrow> string" where
  "chat_groupText g =
     ''## '' @ fst g @ nl @ nl @ concat (map (\<lambda>name. ''* **'' @ name @ ''**'' @ nl) (snd g)) @ nl"

definition helpText :: string where
  "helpText =
     ''# Available Commands'' @ nl @ nl @
     ''* **`/models`** or **`/list-models`** - List available models'' @ nl @
     ''* **`/model MODEL_NAME`** - Switch to a different model'' @ nl @
     ''* **`/help`** - Show this help message'' @ nl @
     ''* **`/quit`** or **`Ctrl+C`** - Exit the chat''"

text \<open>
  Running a command: the body of the closure. The result is the message the closure
  returns, the state of the process after it, and the value the closure's variable
  \<^verbatim>\<open>m\<close> has when the closure ends. No other code reads that variable: the runtime
  holds the model that \<^verbatim>\<open>Update\<close> returned, which is another copy.
\<close>

record CmdResult =
  cmd_msg :: "Msg option"
  cmd_process :: Process
  cmd_m :: "chatModel option"

fun runCmd :: "Backend \<Rightarrow> Cmd \<Rightarrow> Process \<Rightarrow> CmdResult" where
  "runCmd b CmdNil ps = \<lparr>cmd_msg = None, cmd_process = ps, cmd_m = None\<rparr>"
| "runCmd b Quit ps = \<lparr>cmd_msg = Some QuitMsg, cmd_process = ps, cmd_m = None\<rparr>"
| "runCmd b (SwitchModelCmd m newModel) ps =
     (case SwitchModel (client ps) newModel of
        Inl e \<Rightarrow> \<lparr>cmd_msg = Some (errorMsg e), cmd_process = ps, cmd_m = Some m\<rparr>
      | Inr c \<Rightarrow>
          (let ps = ps\<lparr>client := c\<rparr>;
               (session, ps) = StartChat ps;
               m = m\<lparr>chatSession := session\<rparr>;
               m = m\<lparr>currentModel := newModel\<rparr>
           in \<lparr>cmd_msg = Some (responseMsg (''Switched to model: '' @ newModel)),
               cmd_process = ps, cmd_m = Some m\<rparr>))"
| "runCmd b (ListModelsCmd m) ps =
     (case ListModels b of
        Inl e \<Rightarrow> \<lparr>cmd_msg = Some (errorMsg e), cmd_process = ps, cmd_m = Some m\<rparr>
      | Inr models \<Rightarrow>
          \<lparr>cmd_msg = Some (responseMsg (chat_modelsMarkdown m models)),
           cmd_process = ps, cmd_m = Some m\<rparr>)"
| "runCmd b HelpCmd ps = \<lparr>cmd_msg = Some (responseMsg helpText), cmd_process = ps, cmd_m = None\<rparr>"
| "runCmd b (SendMessageCmd m userInput) ps =
     (case sendMessage b (chatSession m) userInput of
        Inl e \<Rightarrow> \<lparr>cmd_msg = Some (errorMsg e), cmd_process = ps, cmd_m = Some m\<rparr>
      | Inr resp \<Rightarrow>
          \<lparr>cmd_msg = Some (responseMsg (extractAiResponse resp)), cmd_process = ps, cmd_m = Some m\<rparr>)"
| "runCmd b (TextInputCmd t) ps = \<lparr>cmd_msg = Some (OtherMsg t), cmd_process = ps, cmd_m = None\<rparr>"

text \<open>
  The Bubble Tea runtime (outside the repository) keeps the current model. For a message
  it calls \<^verbatim>\<open>Update\<close>, keeps the model returned and runs the command returned; the
  message the command returns is delivered in the same way. \<^verbatim>\<open>tea.Quit\<close> ends the
  program. \<open>submitLine\<close> is the Enter key followed by the delivery of the message of
  its command.
\<close>

record Session =
  current :: chatModel
  process :: Process
  closed :: bool

definition deliver :: "textinput_Update \<Rightarrow> Backend \<Rightarrow> Session \<Rightarrow> Msg \<Rightarrow> Session \<times> Msg option" where
  "deliver tiUpdate b s msg =
     (if closed s \<or> msg = QuitMsg then (s\<lparr>closed := True\<rparr>, None)
      else
        let (m, cmd) = Update tiUpdate (current s) msg;
            r = runCmd b cmd (process s)
        in (s\<lparr>current := m, process := cmd_process r\<rparr>, cmd_msg r))"

definition submitLine :: "textinput_Update \<Rightarrow> Backend \<Rightarrow> Session \<Rightarrow> Session" where
  "submitLine tiUpdate b s =
     (case deliver tiUpdate b s (KeyMsg KeyEnter) of
        (s1, None) \<Rightarrow> s1
      | (s1, Some msg) \<Rightarrow> fst (deliver tiUpdate b s1 msg))"

text \<open>
  The extraction as the specification words it: the text parts of all candidates with a
  content, in order, concatenated.
\<close>

fun part_text :: "Part \<Rightarrow> string" where
  "part_text (Text text) = text"
| "part_text (OtherPart _) = []"

fun candidate_parts :: "Candidate \<Rightarrow> Part list" where
  "candidate_parts candidate = (case Content candidate of None \<Rightarrow> [] | Some c \<Rightarrow> Parts c)"

definition spec_response_text :: "GenerateContentResponse \<Rightarrow> string" where
  "spec_response_text resp = concat (map part_text (concat (map candidate_parts (Candidates resp))))"

section \<open>Package cmd: the stream writer of the generate command\<close>

record markdownStreamWriter =
  buffer :: string

text \<open>
  \<^verbatim>\<open>Write\<close> returns the writer after the call, the bytes it printed to standard output
  and its two results \<^verbatim>\<open>(n, err)\<close>.
\<close>

record WriteResult =
  writer :: markdownStreamWriter
  printed :: string
  ret_n :: nat
  ret_err :: "error option"

definition clearLine :: string where
  "clearLine = [CHR 0x0D, CHR 0x1B, CHR ''['', CHR ''K'']"

definition Write :: "UI \<Rightarrow> markdownStreamWriter \<Rightarrow> string \<Rightarrow> WriteResult" where
  "Write ui w p =
     (let text = p;
          w = w\<lparr>buffer := buffer w @ text\<rparr>;
          rendered = RenderMarkdownWithGlamour ui (buffer w);
          out = clearLine;
          out = (case rendered of
                   Inl renderErr \<Rightarrow> out @ buffer w
                 | Inr formatted \<Rightarrow> out @ formatted)
      in \<lparr>writer = w, printed = out, ret_n = length p, ret_err = None\<rparr>)"

text \<open>The writer after a sequence of calls of \<^verbatim>\<open>Write\<close>, one per fragment.\<close>

fun Write_all :: "UI \<Rightarrow> markdownStreamWriter \<Rightarrow> string list \<Rightarrow> markdownStreamWriter" where
  "Write_all ui w [] = w"
| "Write_all ui w (p # ps) = Write_all ui (writer (Write ui w p)) ps"

section \<open>Package cmd: the view of the chat model\<close>

text \<open>
  Go's \<^verbatim>\<open>/\<close> on integers rounds towards zero. The sizes are terminal sizes, far from
  the limits of a 64-bit \<^verbatim>\<open>int\<close>, so \<^verbatim>\<open>int\<close> is \<^typ>\<open>int\<close>.
\<close>

definition go_div :: "int \<Rightarrow> int \<Rightarrow> int" where
  "go_div a b = sgn a * sgn b * (\<bar>a\<bar> div \<bar>b\<bar>)"

definition View_message :: "UI \<Rightarrow> message \<Rightarrow> string" where
  "View_message ui msg =
     (if isUser msg then RenderUserPrompt ui (content msg) @ nl @ nl
      else
        (case RenderMarkdownWithGlamour ui (content msg) of
           Inl e \<Rightarrow>
             ErrorPrefix ui @ ''Failed to render markdown: '' @ Error_msg e @ nl @ nl @
             Render ui AIResponseStyle ''Gemini: '' @ nl @ nl @ content msg @ nl @ nl
         | Inr formattedContent \<Rightarrow>
             Render ui AIResponseStyle ''Gemini: '' @ nl @ nl @ formattedContent @ nl))"

definition startIdx :: "chatModel \<Rightarrow> int" where
  "startIdx m =
     (let availableHeight = height m - 7
      in if int (length (messages m)) > go_div availableHeight 2
         then int (length (messages m)) - go_div availableHeight 2
         else 0)"

text \<open>
  The loop \<^verbatim>\<open>for i := startIdx; i < len(m.messages); i++\<close>. Indexing a slice with a
  negative index panics: that is the result \<open>None\<close>.
\<close>

function View_loop :: "UI \<Rightarrow> message list \<Rightarrow> int \<Rightarrow> string \<Rightarrow> string option" where
  "View_loop ui ms i s =
     (if i < int (length ms)
      then (if i < 0 then None else View_loop ui ms (i + 1) (s @ View_message ui (ms ! nat i)))
      else Some s)"
  by pat_completeness auto
termination
  by (relation "measure (\<lambda>(ui, ms, i, s). nat (int (length ms) - i))") auto

definition View :: "UI \<Rightarrow> chatModel \<Rightarrow> string option" where
  "View ui m =
     (let title = RenderTitle ui ('' Gemini Chat - '' @ currentModel m @ '' '');
          s = title @ nl @ nl;
          body =
            (if length (messages m) = 0
             then Some (s @ Render ui GrayStyle ''Start chatting with Gemini AI...'' @ nl @
                        Render ui GrayStyle ''Type /help to see available commands'' @ nl @ nl)
             else View_loop ui (messages m) (startIdx m) s)
      in case body of
           None \<Rightarrow> None
         | Some s \<Rightarrow>
             (let s = (case err m of
                         Some e \<Rightarrow> s @ ErrorPrefix ui @ Error_msg e @ nl @ nl
                       | None \<Rightarrow> s);
                  s = s @ textInput_View ui (textInput m) @ nl;
                  s = s @ Render ui GrayStyle ''Press Ctrl+C to quit'' @ nl
              in Some s))"

section \<open>Package cmd: the commands of the command line\<close>

text \<open>
  The flags are package variables that Cobra fills in before it calls a command's
  \<^verbatim>\<open>Run\<close>. The environment gives \<^verbatim>\<open>os.Getenv("GEMINI_API_KEY")\<close> (empty when unset),
  the result of \<^verbatim>\<open>os.WriteFile\<close> and the error of the chat program's \<^verbatim>\<open>Run\<close>.
  \<^verbatim>\<open>sort.Slice\<close> is not stable: which of the arrangements sorted by the key it
  returns is not fixed, so the two calls of it are parameters as well.
\<close>

record Flags =
  apiKey :: string
  modelName :: string
  listModels :: bool
  prompt :: string
  outputFile :: string
  stream :: bool
  listModelsGen :: bool

record Env =
  GEMINI_API_KEY :: string
  os_WriteFile :: "string \<Rightarrow> string \<Rightarrow> error option"
  tea_Run :: "error option"
  sortSlice_models :: "ModelInfo list \<Rightarrow> ModelInfo list"
  sortSlice_infos :: "(string \<times> string) list \<Rightarrow> (string \<times> string) list"
  showWelcome :: string
  versionBox :: string

definition Println :: "string \<Rightarrow> string" where
  "Println s = s @ nl"

definition getApiKey :: "Env \<Rightarrow> Flags \<Rightarrow> error + string" where
  "getApiKey env fl =
     (let key = apiKey fl
      in if key = [] then
           (let key = GEMINI_API_KEY env
            in if key = []
               then Inl (Error ''no API key provided. Use --api-key flag or set GEMINI_API_KEY environment variable'')
               else Inr key)
         else Inr key)"

text \<open>
  The models command. An entry of a group is the anonymous struct
  \<^verbatim>\<open>{Name, Version}\<close>, here the pair of the two.
\<close>

fun models_group :: "(string \<times> string) gomap \<Rightarrow> ModelInfo list \<Rightarrow> (string \<times> string) gomap" where
  "models_group modelsByBase [] = modelsByBase"
| "models_group modelsByBase (info # models) =
     (let modelName = displayName (Name info);
          baseInfo = (modelName, Version info)
      in models_group
           (AList.update (BaseModelID info) (lookup modelsByBase (BaseModelID info) @ [baseInfo])
              modelsByBase)
           models)"

fun models_writeInfos :: "string \<Rightarrow> (string \<times> string) list \<Rightarrow> string" where
  "models_writeInfos out [] = out"
| "models_writeInfos out (modelInfo # infos) =
     models_writeInfos (out @ ''* **'' @ fst modelInfo @ ''** (version: '' @ snd modelInfo @ '')'' @ nl) infos"

fun models_writeGroups ::
  "Env \<Rightarrow> (string \<times> string) gomap \<Rightarrow> string \<Rightarrow> nat \<Rightarrow> string list \<Rightarrow> string" where
  "models_writeGroups env modelsByBase out i [] = out"
| "models_writeGroups env modelsByBase out i (baseID # baseModelIDs) =
     (let out = (if i > 0 then out @ ''---'' @ nl @ nl else out);
          out = out @ ''# '' @ baseID @ nl @ nl;
          models = sortSlice_infos env (lookup modelsByBase baseID);
          out = models_writeInfos out models;
          out = out @ nl
      in models_writeGroups env modelsByBase out (i + 1) baseModelIDs)"

definition usageInstructions :: string where
  "usageInstructions =
     ''# Usage Instructions'' @ nl @ nl @
     ''To use a specific model:'' @ nl @ nl @
     ''```bash'' @ nl @
     ''gemi chat --model MODEL_NAME'' @ nl @
     ''gemi generate --model MODEL_NAME --prompt '' @ [CHR 0x22] @ ''Your prompt'' @ [CHR 0x22] @ nl @
     ''```'' @ nl @ nl @
     ''In chat mode, you can also switch models using:'' @ nl @ nl @
     ''```'' @ nl @
     ''/model MODEL_NAME'' @ nl @
     ''```'' @ nl"

definition models_markdown :: "Env \<Rightarrow> ModelInfo list \<Rightarrow> string" where
  "models_markdown env models0 =
     (let models = sortSlice_models env models0;
          modelsByBase = models_group [] models;
          baseModelIDs = sort (keys modelsByBase);
          markdownOutput = models_writeGroups env modelsByBase [] 0 baseModelIDs
      in markdownOutput @ usageInstructions)"

text \<open>
  The structure the loop of the models command walks through: the sorted base ids, each
  with its entries as \<^verbatim>\<open>sort.Slice\<close> leaves them.
\<close>

definition models_grouped :: "Env \<Rightarrow> ModelInfo list \<Rightarrow> (string \<times> (string \<times> string) list) list" where
  "models_grouped env models0 =
     (let models = sortSlice_models env models0;
          modelsByBase = models_group [] models
      in map (\<lambda>baseID. (baseID, sortSlice_infos env (lookup modelsByBase baseID)))
           (sort (keys modelsByBase)))"

definition models_Run :: "UI \<Rightarrow> Env \<Rightarrow> Backend \<Rightarrow> Flags \<Rightarrow> string" where
  "models_Run ui env b fl =
     (case getApiKey env fl of
        Inl e \<Rightarrow> Println (ErrorPrefix ui @ Error_msg e)
      | Inr key \<Rightarrow>
          (case NewClient b key ''gemini-1.5-pro-latest'' of
             Inl e \<Rightarrow> Println (ErrorPrefix ui @ ''Failed to initialize Gemini client: '' @ Error_msg e)
           | Inr c \<Rightarrow>
               (case ListModels b of
                  Inl e \<Rightarrow> Println (ErrorPrefix ui @ ''Failed to list models: '' @ Error_msg e)
                | Inr models \<Rightarrow>
                    (let out = Println (nl @ RenderTitle ui '' Available Gemini Models '' @ nl)
                     in case RenderMarkdownWithGlamour ui (models_markdown env models) of
                          Inl e \<Rightarrow> out @ Println (ErrorPrefix ui @ ''Failed to render markdown: '' @ Error_msg e)
                        | Inr renderedMarkdown \<Rightarrow> out @ Println renderedMarkdown))))"

text \<open>
  \<^verbatim>\<open>Client.GenerateTextStream\<close> with the stream writer: \<^verbatim>\<open>fmt.Fprint(writer, text)\<close>
  calls \<^verbatim>\<open>Write\<close> once with the bytes of \<^verbatim>\<open>text\<close>. The result is the writer, what
  was printed and the error returned.
\<close>

fun GenerateTextStream_loop ::
  "UI \<Rightarrow> markdownStreamWriter \<Rightarrow> string \<Rightarrow> GenerateContentResponse list \<Rightarrow> error option
   \<Rightarrow> markdownStreamWriter \<times> string \<times> error option" where
  "GenerateTextStream_loop ui w out [] end =
     (case end of
        None \<Rightarrow> (w, out, None)
      | Some e \<Rightarrow> (w, out, Some (Error (''failed to get next response: '' @ Error_msg e))))"
| "GenerateTextStream_loop ui w out (resp # resps) end =
     (let text = responseToString resp;
          r = Write ui w text
      in case ret_err r of
           Some e \<Rightarrow>
             (writer r, out @ printed r, Some (Error (''failed to write response: '' @ Error_msg e)))
         | None \<Rightarrow> GenerateTextStream_loop ui (writer r) (out @ printed r) resps end)"

definition GenerateTextStream ::
  "UI \<Rightarrow> Backend \<Rightarrow> Client \<Rightarrow> string \<Rightarrow> markdownStreamWriter
   \<Rightarrow> markdownStreamWriter \<times> string \<times> error option" where
  "GenerateTextStream ui b c promptText w =
     (case generateContentStream b (model c) promptText of
        (resps, end) \<Rightarrow> GenerateTextStream_loop ui w [] resps end)"

text \<open>
  The generate command. The spinner draws on the terminal while the request runs and
  erases itself; it is left out of the output.
\<close>

definition generate_Run :: "UI \<Rightarrow> Env \<Rightarrow> Backend \<Rightarrow> Flags \<Rightarrow> string" where
  "generate_Run ui env b fl =
     (if listModelsGen fl then models_Run ui env b fl
      else if prompt fl = [] then Println (ErrorPrefix ui @ ''Prompt is required. Use --prompt or -p flag.'')
      else
        (case getApiKey env fl of
           Inl e \<Rightarrow> Println (ErrorPrefix ui @ Error_msg e)
         | Inr key \<Rightarrow>
             (case NewClient b key (modelName fl) of
                Inl e \<Rightarrow> Println (ErrorPrefix ui @ ''Failed to initialize Gemini client: '' @ Error_msg e)
              | Inr c \<Rightarrow>
                  (let promptMd = ''# Prompt'' @ nl @ nl @ ''```'' @ nl @ prompt fl @ nl @ ''```'' @ nl @ nl @
                                  ''# Response'' @ nl;
                       out = (case RenderMarkdownWithGlamour ui promptMd of
                                Inl e \<Rightarrow>
                                  Println (ErrorPrefix ui @ ''Failed to render markdown: '' @ Error_msg e) @
                                  Println (''Prompt: '' @ prompt fl @ nl @ nl @ ''Response:'')
                              | Inr formattedPrompt \<Rightarrow> Println formattedPrompt)
                   in if stream fl then
                        (case GenerateTextStream ui b c (prompt fl) \<lparr>buffer = []\<rparr> of
                           (w, streamed, Some e) \<Rightarrow>
                             out @ streamed @
                             Println (nl @ ErrorPrefix ui @ ''Error generating response: '' @ Error_msg e)
                         | (w, streamed, None) \<Rightarrow> out @ streamed @ Println [])
                      else
                        (case GenerateText b c (prompt fl) of
                           Inl e \<Rightarrow> out @ Println (ErrorPrefix ui @ ''Error generating response: '' @ Error_msg e)
                         | Inr result \<Rightarrow>
                             (let out = out @
                                    (case RenderMarkdownWithGlamour ui result of
                                       Inl e \<Rightarrow>
                                         Println (ErrorPrefix ui @ ''Failed to render markdown: '' @ Error_msg e) @
                                         Println result
                                     | Inr formattedResult \<Rightarrow> Println formattedResult)
                              in if outputFile fl \<noteq> [] then
                                   (case os_WriteFile env (outputFile fl) result of
                                      Some e \<Rightarrow> out @ Println (ErrorPrefix ui @ ''Error saving to file: '' @ Error_msg e)
                                    | None \<Rightarrow> out @ Println (SuccessPrefix ui @ ''Response saved to '' @ outputFile fl))
                                 else out))))))"

text \<open>
  The chat command: what it prints besides the screens of the chat program.
\<close>

definition chat_Run :: "UI \<Rightarrow> Env \<Rightarrow> Backend \<Rightarrow> Flags \<Rightarrow> string" where
  "chat_Run ui env b fl =
     (if listModels fl then models_Run ui env b fl
      else
        (case getApiKey env fl of
           Inl e \<Rightarrow> Println (ErrorPrefix ui @ Error_msg e)
         | Inr key \<Rightarrow>
             (case NewClient b key (modelName fl) of
                Inl e \<Rightarrow> Println (ErrorPrefix ui @ ''Failed to initialize Gemini client: '' @ Error_msg e)
              | Inr c \<Rightarrow>
                  (case tea_Run env of
                     Some e \<Rightarrow> Println (ErrorPrefix ui @ ''Error running chat: '' @ Error_msg e)
                   | None \<Rightarrow> []))))"

text \<open>
  \<^verbatim>\<open>Execute\<close> is \<^verbatim>\<open>rootCmd.Execute()\<close> of the Cobra library: it reads the arguments
  and either fails (unknown command or flag: the \<open>UsageError\<close>) and returns the
  error, or calls the \<^verbatim>\<open>Run\<close> of the command and returns nil. Every command of the
  program is declared with \<^verbatim>\<open>Run\<close>, a function without a result.
\<close>

datatype Invocation = UsageError error | RootCmd | VersionCmd | ChatCmd | GenerateCmd | ModelsCmd

definition Execute :: "UI \<Rightarrow> Env \<Rightarrow> Backend \<Rightarrow> Flags \<Rightarrow> Invocation \<Rightarrow> string \<times> error option" where
  "Execute ui env b fl invocation =
     (case invocation of
        UsageError e \<Rightarrow> ([], Some e)
      | RootCmd \<Rightarrow> (showWelcome env, None)
      | VersionCmd \<Rightarrow> (Println (versionBox env), None)
      | ChatCmd \<Rightarrow> (chat_Run ui env b fl, None)
      | GenerateCmd \<Rightarrow> (generate_Run ui env b fl, None)
      | ModelsCmd \<Rightarrow> (models_Run ui env b fl, None))"

text \<open>
  \<^verbatim>\<open>main\<close>: the output and the exit code of the process. A \<^verbatim>\<open>main\<close> that returns
  ends the process with code 0.
\<close>

record Exit =
  stdout :: string
  exit_code :: int

definition main :: "UI \<Rightarrow> Env \<Rightarrow> Backend \<Rightarrow> Flags \<Rightarrow> Invocation \<Rightarrow> Exit" where
  "main ui env b fl invocation =
     (case Execute ui env b fl invocation of
        (out, Some e) \<Rightarrow> \<lparr>stdout = out @ Println (Error_msg e), exit_code = 1\<rparr>
      | (out, None) \<Rightarrow> \<lparr>stdout = out, exit_code = 0\<rparr>)"

section \<open>The grouped structure, for the theorems\<close>

text \<open>
  What \<^verbatim>\<open>sort.Slice\<close> promises for a comparison by a key: the result is an
  arrangement of the slice, in ascending order of the key.
\<close>

definition sorts_by :: "('a \<Rightarrow> string) \<Rightarrow> ('a list \<Rightarrow> 'a list) \<Rightarrow> bool" where
  "sorts_by key srt = (\<forall>xs. mset (srt xs) = mset xs \<and> sorted (map key (srt xs)))"

text \<open>
  The entries of a grouped structure, each with the base id of its group; and the text
  the models command writes for one group.
\<close>

definition group_entries :: "(string \<times> 'v list) list \<Rightarrow> (string \<times> 'v) list" where
  "group_entries gs = concat (map (\<lambda>g. map (Pair (fst g)) (snd g)) gs)"

definition models_groupText :: "string \<times> (string \<times> string) list \<Rightarrow> string" where
  "models_groupText g =
     ''# '' @ fst g @ nl @ nl @
     concat (map (\<lambda>info. ''* **'' @ fst info @ ''** (version: '' @ snd info @ '')'' @ nl) (snd g)) @ nl"

section \<open>Example values\<close>

text \<open>
  Concrete collaborators for the closed theorems: a user interface that leaves text as
  it is, one whose Markdown renderer always fails, a text input widget that ignores
  every message, a backend with two models that answers every prompt with
  \<open>hi there\<close>, and a backend whose requests all fail.
\<close>

definition plain_ui :: UI where
  "plain_ui =
     \<lparr>Render = (\<lambda>style text. text), ErrorPrefix = ''x '', SuccessPrefix = ''v '',
      glamour_NewTermRenderer = Inr (\<lambda>markdown. Inr markdown),
      textInput_View = (\<lambda>ti. ''> '' @ Value ti)\<rparr>"

definition failing_ui :: UI where
  "failing_ui = plain_ui\<lparr>glamour_NewTermRenderer := Inr (\<lambda>markdown. Inl (Error ''no style''))\<rparr>"

definition idle_input :: textinput_Update where
  "idle_input ti msg = (ti, None)"

definition hi_there :: GenerateContentResponse where
  "hi_there = \<lparr>Candidates = [\<lparr>Index = 0, Content = Some \<lparr>Parts = [Text ''hi there''], Role = ''model''\<rparr>\<rparr>]\<rparr>"

definition two_models :: "ModelInfo list" where
  "two_models =
     [\<lparr>Name = ''models/b-1'', BaseModelID = ''b'', Version = ''001''\<rparr>,
      \<lparr>Name = ''models/a-2'', BaseModelID = ''a'', Version = ''002''\<rparr>,
      \<lparr>Name = ''models/a-1'', BaseModelID = ''a'', Version = ''001''\<rparr>]"

definition good_backend :: Backend where
  "good_backend =
     \<lparr>genai_NewClient = (\<lambda>key. None),
      listModelsIter = (two_models, None),
      sendMessage = (\<lambda>session text. Inr hi_there),
      generateContent = (\<lambda>gm text. Inr hi_there),
      generateContentStream = (\<lambda>gm text. ([hi_there, hi_there], None))\<rparr>"


definition plain_env :: Env where
  "plain_env =
     \<lparr>GEMINI_API_KEY = [], os_WriteFile = (\<lambda>file text. None), tea_Run = None,
      sortSlice_models = sort_key Name, sortSlice_infos = sort_key fst,
      showWelcome = [], versionBox = ''Gemi CLI version 1.0.0''\<rparr>"

definition no_flags :: Flags where
  "no_flags =
     \<lparr>apiKey = [], modelName = ''gemini-1.5-pro-latest'', listModels = False, prompt = [],
      outputFile = [], stream = False, listModelsGen = False\<rparr>"

text \<open>
  A chat as \<^verbatim>\<open>initialChatModel\<close> and \<^verbatim>\<open>NewClient\<close> leave it for the default model,
  after the user typed \<open>line\<close> and some messages were exchanged.
\<close>

definition pro_model :: GenerativeModel where
  "pro_model = \<lparr>gm_name = ''gemini-1.5-pro-latest'', Temperature = Some (7 / 10)\<rparr>"

definition chat_with :: "message list \<Rightarrow> string \<Rightarrow> Session" where
  "chat_with history line =
     \<lparr>current =
        \<lparr>chatSession = \<lparr>cs_id = 0, cs_model = pro_model\<rparr>, messages = history,
         textInput = \<lparr>Value = line\<rparr>, err = None, width = 80, height = 24,
         currentModel = ''gemini-1.5-pro-latest''\<rparr>,
      process = \<lparr>client = \<lparr>model = pro_model\<rparr>, sessions_started = 1\<rparr>,
      closed = False\<rparr>"

section \<open>Theorems\<close>

lemma responseToString_parts_acc:
  "responseToString_parts acc ps = acc @ concat (map part_text ps)"
  by (induction ps arbitrary: acc) (auto split: Part.splits)

lemma responseToString_candidates_acc:
  "responseToString_candidates acc cs = acc @ concat (map part_text (concat (map candidate_parts cs)))"
  by (induction cs arbitrary: acc) (auto simp: responseToString_parts_acc split: option.splits)

lemma aiResponse_parts_acc:
  "aiResponse_parts acc ps = acc @ concat (map part_text ps)"
  by (induction acc ps rule: aiResponse_parts.induct) auto

lemma aiResponse_candidates_acc:
  "aiResponse_candidates acc cs = acc @ concat (map part_text (concat (map candidate_parts cs)))"
  by (induction cs arbitrary: acc) (auto simp: aiResponse_parts_acc split: option.splits)

text \<open>
  C10: for every response the inline loop of the chat handler and \<^verbatim>\<open>responseToString\<close>
  return the same string, which is the concatenation in order of the text parts of the
  candidates with a content; a response with no candidates gives the empty string.
\<close>

theorem extraction_agrees:
  "extractAiResponse resp = responseToString resp
   \<and> responseToString resp = spec_response_text resp
   \<and> responseToString (resp\<lparr>Candidates := []\<rparr>) = []
   \<and> extractAiResponse (resp\<lparr>Candidates := []\<rparr>) = []"
  by (simp add: extractAiResponse_def responseToString_def spec_response_text_def
      responseToString_candidates_acc aiResponse_candidates_acc)

lemma Write_buffer: "buffer (writer (Write r w p)) = buffer w @ p"
  by (simp add: Write_def Let_def)

lemma Write_all_buffer: "buffer (Write_all r w ps) = buffer w @ concat ps"
  by (induction ps arbitrary: w) (simp_all add: Write_buffer)

lemma Write_results: "ret_n (Write ui w p) = length p \<and> ret_err (Write ui w p) = None"
  by (simp add: Write_def Let_def)

lemma GenerateTextStream_loop_ok:
  "snd (snd (GenerateTextStream_loop ui w out resps None)) = None
   \<and> buffer (fst (GenerateTextStream_loop ui w out resps end)) = buffer w @ concat (map responseToString resps)"
  by (induction resps arbitrary: w out) (simp_all add: Write_results Write_buffer Let_def split: option.splits)

lemma GenerateTextStream_buffer:
  "buffer (fst (GenerateTextStream ui b c p \<lparr>buffer = []\<rparr>)) =
     concat (map responseToString (fst (generateContentStream b (model c) p)))"
  by (simp add: GenerateTextStream_def GenerateTextStream_loop_ok split: prod.splits)

text \<open>
  C1: a call of \<^verbatim>\<open>Write\<close> appends the fragment to the buffer and changes nothing
  else of it; so after any sequence of fragments, written to a new writer (empty buffer),
  the buffer is their concatenation in arrival order, after one more fragment it is that
  concatenation followed by the fragment, and the same holds after every prefix of the
  sequence. When \<^verbatim>\<open>GenerateTextStream\<close> ends, the buffer is the text of all responses
  of the stream, in order.
\<close>

theorem stream_buffer_is_concatenation:
  "buffer (writer (Write ui w p)) = buffer w @ p
   \<and> buffer (Write_all ui \<lparr>buffer = []\<rparr> ps) = concat ps
   \<and> buffer (Write_all ui \<lparr>buffer = []\<rparr> (ps @ [p])) = concat ps @ p
   \<and> buffer (Write_all ui \<lparr>buffer = []\<rparr> (take k ps)) = concat (take k ps)
   \<and> buffer (fst (GenerateTextStream ui b c promptText \<lparr>buffer = []\<rparr>)) =
       concat (map responseToString (fst (generateContentStream b (model c) promptText)))"
  by (simp add: Write_buffer Write_all_buffer GenerateTextStream_buffer)

lemma Update_enter_empty: "Value (textInput m) = [] \<Longrightarrow> Update_enter m = (m, CmdNil)"
  by (simp add: Update_enter_def)

text \<open>
  C6: when the text input is empty, the Enter key returns the model as it is and no
  command: nothing is appended to the history, the current model and the state of the
  process are unchanged, and nothing is sent.
\<close>

theorem empty_line_ignored:
  assumes "Value (textInput (current s)) = []"
  shows "Update tiUpdate (current s) (KeyMsg KeyEnter) = (current s, CmdNil)
     \<and> deliver tiUpdate b s (KeyMsg KeyEnter) = (s, None)
     \<and> submitLine tiUpdate b s = s"
  using assms by (simp add: Update_enter_empty deliver_def submitLine_def)

theorem empty_line_ignored_witness:
  "Value (textInput (current (chat_with [\<lparr>content = ''hello'', isUser = True\<rparr>] []))) = []
   \<and> submitLine idle_input good_backend (chat_with [\<lparr>content = ''hello'', isUser = True\<rparr>] [])
       = chat_with [\<lparr>content = ''hello'', isUser = True\<rparr>] []"
  using empty_line_ignored [of "chat_with [\<lparr>content = ''hello'', isUser = True\<rparr>] []" idle_input good_backend]
  by (simp add: chat_with_def)

lemma Update_enter_messages:
  "Value (textInput m) \<noteq> [] \<Longrightarrow>
   messages (fst (Update_enter m)) = messages m @ [\<lparr>content = Value (textInput m), isUser = True\<rparr>]"
  by (simp add: Update_enter_def Let_def)

lemma Update_enter_rest:
  "err (fst (Update_enter m)) = err m \<and> currentModel (fst (Update_enter m)) = currentModel m
   \<and> chatSession (fst (Update_enter m)) = chatSession m \<and> width (fst (Update_enter m)) = width m
   \<and> height (fst (Update_enter m)) = height m"
  by (simp add: Update_enter_def Let_def)

lemma Update_enter_cmd:
  "Value (textInput m) \<noteq> [] \<Longrightarrow>
   snd (Update_enter m) \<in>
     {SwitchModelCmd (fst (Update_enter m)) (TrimPrefix (Value (textInput m)) ''/model ''),
      ListModelsCmd (fst (Update_enter m)), HelpCmd, Quit,
      SendMessageCmd (fst (Update_enter m)) (Value (textInput m))}"
  by (simp add: Update_enter_def Let_def)

lemma Update_tail_fields:
  "messages (fst (Update_tail t m msg)) = messages m \<and> err (fst (Update_tail t m msg)) = err m
   \<and> currentModel (fst (Update_tail t m msg)) = currentModel m
   \<and> chatSession (fst (Update_tail t m msg)) = chatSession m
   \<and> snd (Update_tail t m msg) \<noteq> Quit"
  by (simp add: Update_tail_def widget_cmd_def split: prod.splits option.splits)

lemma runCmd_msg_cases:
  "cmd_msg (runCmd b c ps) = None \<or> cmd_msg (runCmd b c ps) = Some QuitMsg
   \<or> (\<exists>t. cmd_msg (runCmd b c ps) = Some (OtherMsg t))
   \<or> (\<exists>e. cmd_msg (runCmd b c ps) = Some (errorMsg e))
   \<or> (\<exists>t. cmd_msg (runCmd b c ps) = Some (responseMsg t))"
  by (cases c) (auto simp: Let_def split: sum.splits prod.splits)


lemma messages_after_msg:
  "messages (fst (Update t m (responseMsg c))) = messages m @ [\<lparr>content = c, isUser = False\<rparr>]"
  "messages (fst (Update t m (errorMsg e))) = messages m"
  "messages (fst (Update t m (OtherMsg k))) = messages m"
  by (simp_all add: Update_tail_fields)

lemma submitLine_messages:
  assumes "Value (textInput (current s)) = line" "line \<noteq> []" "\<not> closed s"
  shows "\<exists>rest. messages (current (submitLine t b s)) =
           messages (current s) @ [\<lparr>content = line, isUser = True\<rparr>] @ rest
         \<and> length rest \<le> 1 \<and> (\<forall>r \<in> set rest. \<not> isUser r)"
proof -
  obtain m1 c where u: "Update_enter (current s) = (m1, c)" by (cases "Update_enter (current s)")
  have m1: "messages m1 = messages (current s) @ [\<lparr>content = line, isUser = True\<rparr>]"
    using Update_enter_messages [of "current s"] assms u by simp
  let ?r = "runCmd b c (process s)"
  let ?s1 = "s\<lparr>current := m1, process := cmd_process ?r\<rparr>"
  have d: "deliver t b s (KeyMsg KeyEnter) = (?s1, cmd_msg ?r)"
    using assms u by (simp add: deliver_def Let_def)
  consider "cmd_msg ?r = None" | "cmd_msg ?r = Some QuitMsg"
    | k where "cmd_msg ?r = Some (OtherMsg k)"
    | e where "cmd_msg ?r = Some (errorMsg e)"
    | x where "cmd_msg ?r = Some (responseMsg x)"
    using runCmd_msg_cases [of b c "process s"] by auto
  then show ?thesis
  proof cases
    case 1
    then show ?thesis using d m1 by (simp add: submitLine_def)
  next
    case 2
    then show ?thesis using d m1 by (simp add: submitLine_def deliver_def)
  next
    case 3
    have "messages (fst (Update t m1 (OtherMsg k))) = messages m1"
      by (rule messages_after_msg)
    then show ?thesis using 3 d m1 assms
      by (auto simp: submitLine_def deliver_def Let_def split: prod.splits)
  next
    case 4
    have "messages (fst (Update t m1 (errorMsg e))) = messages m1"
      by (rule messages_after_msg)
    then show ?thesis using 4 d m1 assms
      by (auto simp: submitLine_def deliver_def Let_def split: prod.splits)
  next
    case 5
    have "messages (fst (Update t m1 (responseMsg x))) = messages m1 @ [\<lparr>content = x, isUser = False\<rparr>]"
      by (rule messages_after_msg)
    then show ?thesis using 5 d m1 assms
      by (auto simp: submitLine_def deliver_def Let_def split: prod.splits intro!: exI [of _ "[\<lparr>content = x, isUser = False\<rparr>]"])
  qed
qed

text \<open>
  C7: for a line that is not empty the Enter key appends the user's message to the
  history in the model it returns, and the command it returns was made after the append
  (it holds that model). The response or the error of the command arrives as a later
  message: a response is appended after the user's message, an error leaves the history
  with the user's message last. So a submitted line leaves the old history, then the
  user's message, then at most one message, which is not the user's.
\<close>

theorem user_message_appended_first:
  assumes "Value (textInput (current s)) = line" "line \<noteq> []" "\<not> closed s"
  shows "(let (m1, cmd) = Update t (current s) (KeyMsg KeyEnter) in
           messages m1 = messages (current s) @ [\<lparr>content = line, isUser = True\<rparr>]
         \<and> cmd \<in> {SwitchModelCmd m1 (TrimPrefix line ''/model ''), ListModelsCmd m1, HelpCmd, Quit,
                  SendMessageCmd m1 line}
         \<and> messages (fst (Update t m1 (responseMsg c))) =
             messages (current s) @ [\<lparr>content = line, isUser = True\<rparr>, \<lparr>content = c, isUser = False\<rparr>]
         \<and> messages (fst (Update t m1 (errorMsg e))) =
             messages (current s) @ [\<lparr>content = line, isUser = True\<rparr>])
       \<and> (\<exists>rest. messages (current (submitLine t b s)) =
             messages (current s) @ [\<lparr>content = line, isUser = True\<rparr>] @ rest
           \<and> length rest \<le> 1 \<and> (\<forall>r \<in> set rest. \<not> isUser r))"
proof -
  have ne: "Value (textInput (current s)) \<noteq> []" using assms by simp
  obtain m1 cmd where u: "Update_enter (current s) = (m1, cmd)" by (cases "Update_enter (current s)")
  have 1: "messages m1 = messages (current s) @ [\<lparr>content = line, isUser = True\<rparr>]"
    using Update_enter_messages [OF ne] u assms(1) by simp
  have 2: "cmd \<in> {SwitchModelCmd m1 (TrimPrefix line ''/model ''), ListModelsCmd m1, HelpCmd, Quit,
                  SendMessageCmd m1 line}"
    using Update_enter_cmd [OF ne] u assms(1) by simp
  show ?thesis
    using submitLine_messages [OF assms, of t b] 1 2 u
    by (simp add: Update_tail_fields)
qed

text \<open>Witness for C7: the line \<open>hello\<close> in a new chat.\<close>

theorem user_message_appended_first_witness:
  "Value (textInput (current (chat_with [] ''hello''))) = ''hello'' \<and> ''hello'' \<noteq> []
   \<and> \<not> closed (chat_with [] ''hello'')
   \<and> messages (fst (Update idle_input (current (chat_with [] ''hello'')) (KeyMsg KeyEnter)))
       = [\<lparr>content = ''hello'', isUser = True\<rparr>]"
  using user_message_appended_first [of "chat_with [] ''hello''" "''hello''" idle_input "[]" "Error []" good_backend]
  by (simp add: chat_with_def split: prod.splits)

lemma TrimPrefix_model: "TrimPrefix (''/model '' @ name) ''/model '' = name"
  by (simp add: TrimPrefix_def HasPrefix_def)

lemma HasPrefix_model: "HasPrefix (''/model '' @ name) ''/model ''"
  by (simp add: HasPrefix_def)

lemma Update_enter_model:
  "Value (textInput m) = ''/model '' @ name \<Longrightarrow>
   Update_enter m =
     (m\<lparr>messages := messages m @ [\<lparr>content = ''/model '' @ name, isUser = True\<rparr>],
        textInput := Reset (textInput m)\<rparr>,
      SwitchModelCmd
        (m\<lparr>messages := messages m @ [\<lparr>content = ''/model '' @ name, isUser = True\<rparr>],
           textInput := Reset (textInput m)\<rparr>) name)"
  using HasPrefix_model [of name] TrimPrefix_model [of name]
  by (simp add: Update_enter_def Let_def del: append.simps)

lemma Update_tail_process:
  "cmd_process (runCmd b (snd (Update_tail t m msg)) ps) = ps"
  by (simp add: Update_tail_def widget_cmd_def split: prod.splits option.splits)

lemma deliver_open:
  "\<not> closed s \<Longrightarrow> msg \<noteq> QuitMsg \<Longrightarrow>
   deliver t b s msg =
     (s\<lparr>current := fst (Update t (current s) msg),
        process := cmd_process (runCmd b (snd (Update t (current s) msg)) (process s))\<rparr>,
      cmd_msg (runCmd b (snd (Update t (current s) msg)) (process s)))"
  by (simp add: deliver_def Let_def case_prod_beta)

text \<open>
  C5 (as amended): the line \<open>/model \<close> (nothing after the blank) makes
  \<^verbatim>\<open>SwitchModel\<close> return the error \<open>model name cannot be empty\<close>; the state of the
  process (the client and its model handle) is unchanged, the current model name and the
  chat session are unchanged, the error becomes the model's error value and the session
  stays open. The history is not unchanged: the user's line is appended to it, as for
  every line that is not empty; nothing else is appended and nothing is removed.
\<close>

theorem empty_model_name_rejected:
  assumes "Value (textInput (current s)) = ''/model ''" "\<not> closed s"
  shows "SwitchModel (client (process s)) (TrimPrefix ''/model '' ''/model '')
           = Inl (Error ''model name cannot be empty'')
     \<and> process (submitLine t b s) = process s
     \<and> currentModel (current (submitLine t b s)) = currentModel (current s)
     \<and> chatSession (current (submitLine t b s)) = chatSession (current s)
     \<and> err (current (submitLine t b s)) = Some (Error ''model name cannot be empty'')
     \<and> messages (current (submitLine t b s)) =
         messages (current s) @ [\<lparr>content = ''/model '', isUser = True\<rparr>]
     \<and> \<not> closed (submitLine t b s)"
proof -
  have v: "Value (textInput (current s)) = ''/model '' @ []" using assms by simp
  show ?thesis
    using Update_enter_model [OF v] assms(2) TrimPrefix_model [of "[]"]
    by (simp add: submitLine_def deliver_open SwitchModel_def Update_tail_fields Update_tail_process
        del: append.simps)
qed

text \<open>Witness for C5: the line \<open>/model \<close> in a new chat.\<close>

theorem empty_model_name_rejected_witness:
  "Value (textInput (current (chat_with [] ''/model ''))) = ''/model ''
   \<and> \<not> closed (chat_with [] ''/model '')
   \<and> err (current (submitLine idle_input good_backend (chat_with [] ''/model '')))
       = Some (Error ''model name cannot be empty'')
   \<and> messages (current (submitLine idle_input good_backend (chat_with [] ''/model '')))
       = [\<lparr>content = ''/model '', isUser = True\<rparr>]"
  using empty_model_name_rejected [of "chat_with [] ''/model ''" idle_input good_backend]
  by (simp add: chat_with_def)

text \<open>
  Counterexample for C5 as stated: after the line \<open>/model \<close> the history of a new
  chat is not what it was before.
\<close>

theorem empty_model_name_history_counterexample:
  "messages (current (submitLine idle_input good_backend (chat_with [] ''/model '')))
     \<noteq> messages (current (chat_with [] ''/model ''))"
  by (simp add: submitLine_def deliver_def Update_enter_def HasPrefix_def TrimPrefix_def
      SwitchModel_def Update_tail_def idle_input_def widget_cmd_def chat_with_def Reset_def Let_def)

lemma switch_model_in_general:
  assumes "Value (textInput (current s)) = ''/model '' @ name" "name \<noteq> []" "\<not> closed s"
  shows "model (client (process (submitLine t b s))) = \<lparr>gm_name = name, Temperature = Some (7 / 10)\<rparr>
     \<and> sessions_started (process (submitLine t b s)) = Suc (sessions_started (process s))
     \<and> currentModel (current (submitLine t b s)) = currentModel (current s)
     \<and> chatSession (current (submitLine t b s)) = chatSession (current s)
     \<and> messages (current (submitLine t b s)) =
         messages (current s) @ [\<lparr>content = ''/model '' @ name, isUser = True\<rparr>,
                                 \<lparr>content = ''Switched to model: '' @ name, isUser = False\<rparr>]
     \<and> map_option currentModel (cmd_m (runCmd b (snd (Update t (current s) (KeyMsg KeyEnter))) (process s)))
         = Some name"
  using Update_enter_model [OF assms(1)] assms(2,3)
  by (simp add: submitLine_def deliver_open SwitchModel_def StartChat_def genai_GenerativeModel_def
      Update_tail_fields Update_tail_process Let_def del: append.simps)

lemma startIdx_nonneg: "0 \<le> startIdx m"
  by (simp add: startIdx_def Let_def)

lemma View_loop_drop:
  "0 \<le> i \<Longrightarrow> View_loop ui ms i s = Some (s @ concat (map (View_message ui) (drop (nat i) ms)))"
proof (induction ui ms i s rule: View_loop.induct)
  case (1 ui ms i s)
  show ?case
  proof (cases "i < int (length ms)")
    case True
    then have n: "nat i < length ms" using "1.prems" by linarith
    have step: "View_loop ui ms i s = View_loop ui ms (i + 1) (s @ View_message ui (ms ! nat i))"
      using True "1.prems" by (subst View_loop.simps) simp
    have "View_loop ui ms (i + 1) (s @ View_message ui (ms ! nat i)) =
          Some ((s @ View_message ui (ms ! nat i)) @ concat (map (View_message ui) (drop (nat (i + 1)) ms)))"
      using "1.IH" True "1.prems" by simp
    moreover have "nat (i + 1) = Suc (nat i)" using "1.prems" by linarith
    moreover have "drop (nat i) ms = ms ! nat i # drop (Suc (nat i)) ms"
      using n by (simp add: Cons_nth_drop_Suc)
    ultimately show ?thesis using step by simp
  next
    case False
    then have "length ms \<le> nat i" by linarith
    then show ?thesis using False by (subst View_loop.simps) simp
  qed
qed

lemma View_full:
  "View ui m = Some (RenderTitle ui ('' Gemini Chat - '' @ currentModel m @ '' '') @ nl @ nl @
      (if messages m = []
       then Render ui GrayStyle ''Start chatting with Gemini AI...'' @ nl @
            Render ui GrayStyle ''Type /help to see available commands'' @ nl @ nl
       else concat (map (View_message ui) (drop (nat (startIdx m)) (messages m)))) @
      (case err m of Some e \<Rightarrow> ErrorPrefix ui @ Error_msg e @ nl @ nl | None \<Rightarrow> []) @
      textInput_View ui (textInput m) @ nl @ Render ui GrayStyle ''Press Ctrl+C to quit'' @ nl)"
  using View_loop_drop [OF startIdx_nonneg [of m]]
  by (simp add: View_def Let_def del: append.simps split: option.splits)


text \<open>
  C2, evaluated: in a chat on \<open>gemini-1.5-pro-latest\<close> the line
  \<open>/model gemini-1.5-flash\<close> replaces the model handle of the client and starts a
  second chat session, and the closure's copy of the model gets the new session and the
  new name. The history gains the user's line and the confirmation. But the model the
  runtime holds still names \<open>gemini-1.5-pro-latest\<close> as the current model, as the
  title of the view shows, and still holds the first chat session, which is bound to the
  old model handle.
\<close>

theorem switch_model_lost_in_closure:
  "gm_name (model (client (process (submitLine idle_input good_backend (chat_with [] ''/model gemini-1.5-flash'')))))
     = ''gemini-1.5-flash''
   \<and> sessions_started (process (submitLine idle_input good_backend (chat_with [] ''/model gemini-1.5-flash''))) = 2
   \<and> map_option currentModel
        (cmd_m (runCmd good_backend
           (snd (Update idle_input (current (chat_with [] ''/model gemini-1.5-flash'')) (KeyMsg KeyEnter)))
           (process (chat_with [] ''/model gemini-1.5-flash''))))
     = Some ''gemini-1.5-flash''
   \<and> map_option (cs_id \<circ> chatSession)
        (cmd_m (runCmd good_backend
           (snd (Update idle_input (current (chat_with [] ''/model gemini-1.5-flash'')) (KeyMsg KeyEnter)))
           (process (chat_with [] ''/model gemini-1.5-flash''))))
     = Some 1
   \<and> currentModel (current (submitLine idle_input good_backend (chat_with [] ''/model gemini-1.5-flash'')))
     = ''gemini-1.5-pro-latest''
   \<and> chatSession (current (submitLine idle_input good_backend (chat_with [] ''/model gemini-1.5-flash'')))
     = \<lparr>cs_id = 0, cs_model = pro_model\<rparr>
   \<and> messages (current (submitLine idle_input good_backend (chat_with [] ''/model gemini-1.5-flash'')))
     = [\<lparr>content = ''/model gemini-1.5-flash'', isUser = True\<rparr>,
        \<lparr>content = ''Switched to model: gemini-1.5-flash'', isUser = False\<rparr>]
   \<and> View plain_ui (current (submitLine idle_input good_backend (chat_with [] ''/model gemini-1.5-flash'')))
     = Some ('' Gemini Chat - gemini-1.5-pro-latest '' @ nl @ nl @
             ''You:  /model gemini-1.5-flash'' @ nl @ nl @
             ''Gemini: '' @ nl @ nl @ ''Switched to model: gemini-1.5-flash'' @ nl @
             ''> '' @ nl @ ''Press Ctrl+C to quit'' @ nl)"
  by (simp add: submitLine_def deliver_def Update_enter_def HasPrefix_def TrimPrefix_def
      SwitchModel_def StartChat_def genai_GenerativeModel_def Update_tail_def idle_input_def
      widget_cmd_def chat_with_def Reset_def Let_def View_full startIdx_def go_div_def
      View_message_def RenderMarkdownWithGlamour_def RenderUserPrompt_def RenderTitle_def plain_ui_def)

lemma runCmd_failures:
  "SwitchModel (client ps) name = Inl e \<Longrightarrow>
     runCmd b (SwitchModelCmd m name) ps = \<lparr>cmd_msg = Some (errorMsg e), cmd_process = ps, cmd_m = Some m\<rparr>"
  "ListModels b = Inl e \<Longrightarrow>
     runCmd b (ListModelsCmd m) ps = \<lparr>cmd_msg = Some (errorMsg e), cmd_process = ps, cmd_m = Some m\<rparr>"
  "sendMessage b (chatSession m) line = Inl e \<Longrightarrow>
     runCmd b (SendMessageCmd m line) ps = \<lparr>cmd_msg = Some (errorMsg e), cmd_process = ps, cmd_m = Some m\<rparr>"
  by simp_all



text \<open>
  Where a rendering failure falls back to the raw text: when the renderer returns an
  error for the accumulated buffer, \<^verbatim>\<open>Write\<close> prints the buffer itself after the
  line-clearing sequence; in any case it reports the length of the fragment and no
  error, so a stream that ends without a transport error ends without any error. In the
  chat view a message that is not the user's and whose text the renderer rejects is
  shown as the error notice followed by the label and the raw text; the view is always a
  string (it never indexes out of range), made of the view of each message of the
  window.
\<close>

theorem render_failure_falls_back:
  "(RenderMarkdownWithGlamour ui (buffer w @ p) = Inl e \<longrightarrow>
      Write ui w p = \<lparr>writer = w\<lparr>buffer := buffer w @ p\<rparr>, printed = clearLine @ buffer w @ p,
                      ret_n = length p, ret_err = None\<rparr>)
   \<and> ret_n (Write ui w p) = length p \<and> ret_err (Write ui w p) = None
   \<and> snd (snd (GenerateTextStream_loop ui w out resps None)) = None
   \<and> (\<not> isUser msg \<and> RenderMarkdownWithGlamour ui (content msg) = Inl e \<longrightarrow>
        View_message ui msg =
          ErrorPrefix ui @ ''Failed to render markdown: '' @ Error_msg e @ nl @ nl @
          Render ui AIResponseStyle ''Gemini: '' @ nl @ nl @ content msg @ nl @ nl)
   \<and> (\<exists>screen. View ui m = Some screen)
   \<and> (messages m \<noteq> [] \<longrightarrow>
        View ui m =
          Some (RenderTitle ui ('' Gemini Chat - '' @ currentModel m @ '' '') @ nl @ nl @
                concat (map (View_message ui) (drop (nat (startIdx m)) (messages m))) @
                (case err m of Some e \<Rightarrow> ErrorPrefix ui @ Error_msg e @ nl @ nl | None \<Rightarrow> []) @
                textInput_View ui (textInput m) @ nl @
                Render ui GrayStyle ''Press Ctrl+C to quit'' @ nl))"
  using GenerateTextStream_loop_ok [of ui w out resps]
  by (simp add: Write_def View_message_def View_full Let_def del: append.simps)

lemma failing_ui_fails:
  "RenderMarkdownWithGlamour failing_ui markdown = Inl (Error ''failed to render markdown: no style'')"
  by (simp add: RenderMarkdownWithGlamour_def failing_ui_def plain_ui_def)

text \<open>The fallback at a renderer that always fails, for the fragment \<open>lo\<close> after \<open>hel\<close>.\<close>

theorem render_failure_falls_back_witness:
  "RenderMarkdownWithGlamour failing_ui (buffer \<lparr>buffer = ''hel''\<rparr> @ ''lo'')
     = Inl (Error ''failed to render markdown: no style'')
   \<and> printed (Write failing_ui \<lparr>buffer = ''hel''\<rparr> ''lo'') = clearLine @ ''hello''
   \<and> ret_n (Write failing_ui \<lparr>buffer = ''hel''\<rparr> ''lo'') = 2
   \<and> \<not> isUser \<lparr>content = ''hi there'', isUser = False\<rparr>
   \<and> View_message failing_ui \<lparr>content = ''hi there'', isUser = False\<rparr> =
       ''x Failed to render markdown: failed to render markdown: no style'' @ nl @ nl @
       ''Gemini: '' @ nl @ nl @ ''hi there'' @ nl @ nl
   \<and> [\<lparr>content = ''hi there'', isUser = False\<rparr>] \<noteq> []"
  using render_failure_falls_back [where ui = failing_ui and w = "\<lparr>buffer = ''hel''\<rparr>" and p = "''lo''"
      and e = "Error ''failed to render markdown: no style''"
      and msg = "\<lparr>content = ''hi there'', isUser = False\<rparr>"]
    failing_ui_fails
  by (simp add: failing_ui_def plain_ui_def)

lemma exit_code_main:
  "exit_code (main ui env b fl invocation) = (case invocation of UsageError e \<Rightarrow> 1 | _ \<Rightarrow> 0)"
  by (cases invocation) (simp_all add: main_def Execute_def)

text \<open>
  C9 (as amended): the exit code is 1 exactly when \<^verbatim>\<open>Execute\<close> returns an error, which
  is when Cobra rejects the command line, and 0 otherwise. A command's \<^verbatim>\<open>Run\<close> has no
  result: when the API key is missing, the client cannot be made or the generation
  request fails, the generate command prints the message and the process exits with 0.
\<close>

theorem exit_code_from_Execute_only:
  "exit_code (main ui env b fl invocation) = (case invocation of UsageError e \<Rightarrow> 1 | _ \<Rightarrow> 0)
   \<and> (exit_code (main ui env b fl invocation) = 0 \<or> exit_code (main ui env b fl invocation) = 1)
   \<and> (exit_code (main ui env b fl invocation) = 1) = (snd (Execute ui env b fl invocation) \<noteq> None)
   \<and> (\<not> listModelsGen fl \<and> prompt fl \<noteq> [] \<and> getApiKey env fl = Inl e \<longrightarrow>
        main ui env b fl GenerateCmd = \<lparr>stdout = Println (ErrorPrefix ui @ Error_msg e), exit_code = 0\<rparr>)
   \<and> (\<not> listModelsGen fl \<and> prompt fl \<noteq> [] \<and> getApiKey env fl = Inr key
        \<and> NewClient b key (modelName fl) = Inl e \<longrightarrow>
        main ui env b fl GenerateCmd =
          \<lparr>stdout = Println (ErrorPrefix ui @ ''Failed to initialize Gemini client: '' @ Error_msg e),
           exit_code = 0\<rparr>)
   \<and> (\<not> listModelsGen fl \<and> prompt fl \<noteq> [] \<and> getApiKey env fl = Inr key
        \<and> NewClient b key (modelName fl) = Inr c \<and> \<not> stream fl \<and> GenerateText b c (prompt fl) = Inl e \<longrightarrow>
        exit_code (main ui env b fl GenerateCmd) = 0
        \<and> (\<exists>out. stdout (main ui env b fl GenerateCmd) =
              out @ Println (ErrorPrefix ui @ ''Error generating response: '' @ Error_msg e)))"
proof -
  have 1: "exit_code (main ui env b fl invocation) = (case invocation of UsageError e \<Rightarrow> 1 | _ \<Rightarrow> 0)"
    by (rule exit_code_main)
  have 2: "(exit_code (main ui env b fl invocation) = 1) = (snd (Execute ui env b fl invocation) \<noteq> None)"
    by (cases invocation) (simp_all add: main_def Execute_def)
  have 3: "exit_code (main ui env b fl invocation) = 0 \<or> exit_code (main ui env b fl invocation) = 1"
    by (cases invocation) (simp_all add: main_def Execute_def)
  have 4: "\<not> listModelsGen fl \<and> prompt fl \<noteq> [] \<and> getApiKey env fl = Inl e \<longrightarrow>
        main ui env b fl GenerateCmd = \<lparr>stdout = Println (ErrorPrefix ui @ Error_msg e), exit_code = 0\<rparr>"
    by (simp add: main_def Execute_def generate_Run_def)
  have 5: "\<not> listModelsGen fl \<and> prompt fl \<noteq> [] \<and> getApiKey env fl = Inr key
        \<and> NewClient b key (modelName fl) = Inl e \<longrightarrow>
        main ui env b fl GenerateCmd =
          \<lparr>stdout = Println (ErrorPrefix ui @ ''Failed to initialize Gemini client: '' @ Error_msg e),
           exit_code = 0\<rparr>"
    by (simp add: main_def Execute_def generate_Run_def)
  have 6: "\<not> listModelsGen fl \<and> prompt fl \<noteq> [] \<and> getApiKey env fl = Inr key
        \<and> NewClient b key (modelName fl) = Inr c \<and> \<not> stream fl \<and> GenerateText b c (prompt fl) = Inl e \<longrightarrow>
        exit_code (main ui env b fl GenerateCmd) = 0
        \<and> (\<exists>out. stdout (main ui env b fl GenerateCmd) =
              out @ Println (ErrorPrefix ui @ ''Error generating response: '' @ Error_msg e))"
    by (simp add: main_def Execute_def generate_Run_def Let_def del: append.simps)
  show ?thesis using 1 2 3 4 5 6 by blast
qed

text \<open>Witness for C9: the generate command with a prompt and no API key.\<close>

theorem exit_code_from_Execute_only_witness:
  "\<not> listModelsGen (no_flags\<lparr>prompt := ''hi''\<rparr>) \<and> prompt (no_flags\<lparr>prompt := ''hi''\<rparr>) \<noteq> []
   \<and> getApiKey plain_env (no_flags\<lparr>prompt := ''hi''\<rparr>) =
       Inl (Error ''no API key provided. Use --api-key flag or set GEMINI_API_KEY environment variable'')
   \<and> main plain_ui plain_env good_backend (no_flags\<lparr>prompt := ''hi''\<rparr>) GenerateCmd =
       \<lparr>stdout = Println (ErrorPrefix plain_ui @
          ''no API key provided. Use --api-key flag or set GEMINI_API_KEY environment variable''),
        exit_code = 0\<rparr>"
  using exit_code_from_Execute_only [where ui = plain_ui and env = plain_env and b = good_backend
      and fl = "no_flags\<lparr>prompt := ''hi''\<rparr>"
      and e = "Error ''no API key provided. Use --api-key flag or set GEMINI_API_KEY environment variable''"]
  by (simp add: getApiKey_def plain_env_def no_flags_def)

text \<open>
  Counterexample for C9 as stated: the generate command with a prompt and no API key
  fails (it prints the error and sends nothing) and the process exits with code 0.
\<close>

theorem missing_api_key_exit_code_counterexample:
  "getApiKey plain_env (no_flags\<lparr>prompt := ''hi''\<rparr>) =
       Inl (Error ''no API key provided. Use --api-key flag or set GEMINI_API_KEY environment variable'')
   \<and> stdout (main plain_ui plain_env good_backend (no_flags\<lparr>prompt := ''hi''\<rparr>) GenerateCmd) =
       ''x no API key provided. Use --api-key flag or set GEMINI_API_KEY environment variable'' @ nl
   \<and> exit_code (main plain_ui plain_env good_backend (no_flags\<lparr>prompt := ''hi''\<rparr>) GenerateCmd) = 0"
  by (simp add: main_def Execute_def generate_Run_def getApiKey_def plain_env_def no_flags_def
      plain_ui_def Println_def)

lemma Split_from_no_sep: "sep \<notin> set b \<Longrightarrow> Split_from piece b sep = [piece @ b]"
  by (induction b arbitrary: piece) auto

lemma Split_from_nonempty: "Split_from piece s sep \<noteq> []"
  by (induction s arbitrary: piece) auto

lemma last_Split_from:
  "sep \<notin> set b \<Longrightarrow> last (Split_from piece (a @ sep # b) sep) = b"
  by (induction a arbitrary: piece) (auto simp: Split_from_no_sep Split_from_nonempty)

lemma displayName_last_segment:
  "CHR ''/'' \<notin> set b \<Longrightarrow> displayName (a @ ''/'' @ b) = b \<and> displayName b = b"
  by (simp add: displayName_def Split_def last_Split_from Split_from_no_sep)

lemma group_entries_Nil: "group_entries [] = []"
  by (simp add: group_entries_def)

lemma group_entries_Cons: "group_entries (g # gs) = map (Pair (fst g)) (snd g) @ group_entries gs"
  by (simp add: group_entries_def)

lemma group_entries_update:
  "mset (group_entries (AList.update k (lookup mb k @ [v]) mb)) = mset (group_entries mb) + {#(k, v)#}"
proof (induction mb)
  case Nil
  then show ?case by (simp add: group_entries_def lookup_def)
next
  case (Cons p mb)
  obtain k' vs where p: "p = (k', vs)" by (cases p)
  show ?case
  proof (cases "k' = k")
    case True
    then show ?thesis using p by (simp add: group_entries_Cons lookup_def)
  next
    case False
    then have "lookup (p # mb) k = lookup mb k" using p by (simp add: lookup_def)
    then show ?thesis using False p Cons.IH by (simp add: group_entries_Cons)
  qed
qed

lemma chat_groupModels_keys:
  "distinct (keys mb) \<Longrightarrow> distinct (keys (chat_groupModels mb models))"
  by (induction models arbitrary: mb) (simp_all add: keys_def Let_def distinct_update)

lemma chat_groupModels_entries:
  "mset (group_entries (chat_groupModels mb models)) =
   mset (group_entries mb) + mset (map (\<lambda>i. (BaseModelID i, displayName (Name i))) models)"
  by (induction models arbitrary: mb) (simp_all add: Let_def group_entries_update)

lemma models_group_keys:
  "distinct (keys mb) \<Longrightarrow> distinct (keys (models_group mb models))"
  by (induction models arbitrary: mb) (simp_all add: keys_def Let_def distinct_update)

lemma models_group_entries:
  "mset (group_entries (models_group mb models)) =
   mset (group_entries mb) + mset (map (\<lambda>i. (BaseModelID i, displayName (Name i), Version i)) models)"
  by (induction models arbitrary: mb) (simp_all add: Let_def group_entries_update)

lemma lookup_keys:
  "distinct (keys mb) \<Longrightarrow> map (\<lambda>k. (k, lookup mb k)) (keys mb) = mb"
proof (induction mb)
  case Nil
  then show ?case by (simp add: keys_def)
next
  case (Cons p mb)
  obtain a b where p: "p = (a, b)" by (cases p)
  have d: "distinct (keys mb)" and a: "a \<notin> set (keys mb)"
    using Cons.prems p by (simp_all add: keys_def)
  have "lookup (p # mb) k = lookup mb k" if "k \<in> set (keys mb)" for k
    using that a p by (auto simp: lookup_def)
  then have "map (\<lambda>k. (k, lookup (p # mb) k)) (keys mb) = map (\<lambda>k. (k, lookup mb k)) (keys mb)"
    by simp
  also have "\<dots> = mb" using Cons.IH d by simp
  finally have rest: "map (\<lambda>k. (k, lookup (p # mb) k)) (keys mb) = mb" .
  have first: "lookup (p # mb) a = b" using p by (simp add: lookup_def)
  have "keys (p # mb) = a # keys mb" using p by (simp add: keys_def)
  then show ?case using rest first p by simp
qed

lemma mset_group_entries:
  "mset (group_entries gs) = (\<Sum>g\<in>#mset gs. image_mset (Pair (fst g)) (mset (snd g)))"
  by (induction gs) (simp_all add: group_entries_Cons group_entries_def)

lemma regrouped_entries:
  assumes d: "distinct (keys mb)" and p: "\<And>xs. mset (srt xs) = mset xs" and ks: "mset ks = mset (keys mb)"
  shows "mset (group_entries (map (\<lambda>k. (k, srt (lookup mb k))) ks)) = mset (group_entries mb)"
proof -
  have "mset (group_entries (map (\<lambda>k. (k, srt (lookup mb k))) ks)) =
        (\<Sum>k\<in>#mset ks. image_mset (Pair k) (mset (lookup mb k)))"
    by (simp add: mset_group_entries image_mset.compositionality comp_def p)
  also have "\<dots> = (\<Sum>k\<in>#mset (keys mb). image_mset (Pair k) (mset (lookup mb k)))"
    by (simp add: ks)
  also have "\<dots> = mset (group_entries (map (\<lambda>k. (k, lookup mb k)) (keys mb)))"
    by (simp add: mset_group_entries image_mset.compositionality comp_def)
  also have "\<dots> = mset (group_entries mb)"
    by (simp add: lookup_keys [OF d])
  finally show ?thesis .
qed


lemma chat_writeNames_eq:
  "chat_writeNames sb names = sb @ concat (map (\<lambda>name. ''* **'' @ name @ ''**'' @ nl) names)"
  by (induction names arbitrary: sb) simp_all

lemma chat_writeGroups_eq:
  "chat_writeGroups mb sb ids =
   sb @ concat (map (\<lambda>baseID. chat_groupText (baseID, sort (lookup mb baseID))) ids)"
  by (induction ids arbitrary: sb) (simp_all add: Let_def chat_writeNames_eq chat_groupText_def)

lemma chat_modelsMarkdown_eq:
  "chat_modelsMarkdown m models =
   ''# Available Models'' @ nl @ nl @ concat (map chat_groupText (chat_grouped models)) @
   ''**Current model:** '' @ currentModel m @ nl @ nl @ ''To change models, type: `/model MODEL_NAME`''"
  by (simp add: chat_modelsMarkdown_def chat_grouped_def Let_def chat_writeGroups_eq comp_def
      del: append.simps)

lemma models_writeInfos_eq:
  "models_writeInfos out infos =
   out @ concat (map (\<lambda>info. ''* **'' @ fst info @ ''** (version: '' @ snd info @ '')'' @ nl) infos)"
  by (induction infos arbitrary: out) simp_all

lemma models_writeGroups_later:
  "0 < i \<Longrightarrow> models_writeGroups env mb out i ids =
   out @ concat (map (\<lambda>baseID. ''---'' @ nl @ nl @
                        models_groupText (baseID, sortSlice_infos env (lookup mb baseID))) ids)"
  by (induction ids arbitrary: out i) (simp_all add: Let_def models_writeInfos_eq models_groupText_def)

lemma models_writeGroups_first:
  "models_writeGroups env mb out 0 (baseID # ids) =
   out @ models_groupText (baseID, sortSlice_infos env (lookup mb baseID)) @
   concat (map (\<lambda>baseID. ''---'' @ nl @ nl @
                  models_groupText (baseID, sortSlice_infos env (lookup mb baseID))) ids)"
  by (simp add: Let_def models_writeInfos_eq models_groupText_def models_writeGroups_later
      del: append.simps)

lemma models_markdown_eq:
  "models_markdown env models =
   (case map models_groupText (models_grouped env models) of
      [] \<Rightarrow> []
    | first # later \<Rightarrow> first @ concat (map (\<lambda>text. ''---'' @ nl @ nl @ text) later)) @
   usageInstructions"
proof (cases "sort (keys (models_group [] (sortSlice_models env models)))")
  case Nil
  then show ?thesis by (simp add: models_markdown_def models_grouped_def Let_def)
next
  case (Cons baseID ids)
  then show ?thesis
    by (simp add: models_markdown_def models_grouped_def Let_def models_writeGroups_first comp_def
        del: append.simps models_writeGroups.simps)
qed


lemma sorts_by_sort_key: "sorts_by key (sort_key key)"
  by (simp add: sorts_by_def)

lemma chat_grouped_keys:
  "sorted (map fst (chat_grouped models)) \<and> distinct (map fst (chat_grouped models))"
  using chat_groupModels_keys [of "[]" models]
  by (simp add: chat_grouped_def Let_def comp_def keys_def)

lemma chat_grouped_names: "g \<in> set (chat_grouped models) \<Longrightarrow> sorted (snd g)"
  by (auto simp: chat_grouped_def Let_def)

lemma chat_grouped_entries:
  "mset (group_entries (chat_grouped models)) =
   mset (map (\<lambda>i. (BaseModelID i, displayName (Name i))) models)"
proof -
  have d: "distinct (keys (chat_groupModels [] models))"
    by (rule chat_groupModels_keys) (simp add: keys_def)
  have "mset (group_entries (chat_grouped models)) = mset (group_entries (chat_groupModels [] models))"
    unfolding chat_grouped_def Let_def
    by (rule regrouped_entries [OF d]) simp_all
  then show ?thesis by (simp add: chat_groupModels_entries group_entries_Nil)
qed

lemma models_grouped_keys:
  "sorted (map fst (models_grouped env models)) \<and> distinct (map fst (models_grouped env models))"
  using models_group_keys [of "[]" "sortSlice_models env models"]
  by (simp add: models_grouped_def Let_def comp_def keys_def)

lemma models_grouped_names:
  "sorts_by fst (sortSlice_infos env) \<Longrightarrow> g \<in> set (models_grouped env models) \<Longrightarrow>
   sorted (map fst (snd g))"
  by (auto simp: models_grouped_def Let_def sorts_by_def)

lemma models_grouped_entries:
  assumes "sorts_by Name (sortSlice_models env)" "sorts_by fst (sortSlice_infos env)"
  shows "mset (group_entries (models_grouped env models)) =
         mset (map (\<lambda>i. (BaseModelID i, displayName (Name i), Version i)) models)"
proof -
  let ?sorted = "sortSlice_models env models"
  have d: "distinct (keys (models_group [] ?sorted))"
    by (rule models_group_keys) (simp add: keys_def)
  have "mset (group_entries (models_grouped env models)) = mset (group_entries (models_group [] ?sorted))"
    unfolding models_grouped_def Let_def
    by (rule regrouped_entries [OF d]) (use assms(2) in \<open>simp_all add: sorts_by_def\<close>)
  also have "\<dots> = image_mset (\<lambda>i. (BaseModelID i, displayName (Name i), Version i)) (mset ?sorted)"
    by (simp add: models_group_entries group_entries_Nil)
  also have "mset ?sorted = mset models" using assms(1) by (simp add: sorts_by_def)
  finally show ?thesis by simp
qed

lemma sort_keys_any_order: "mset ks = mset (keys mb) \<Longrightarrow> sort ks = sort (keys mb)"
  by (rule properties_for_sort) simp_all

text \<open>
  C3: in the structure the list-models command of the chat writes out, the base ids are in
  strictly ascending order, the display names of every group are in ascending order, and
  the entries are those of the input, each once (as multisets of base id and display
  name); the Markdown of the command is that structure, group by group. The same holds
  for the models command of the command line, whose entries carry the version too and
  are sorted by \<^verbatim>\<open>sort.Slice\<close>, for any result \<^verbatim>\<open>sort.Slice\<close> may give. The
  display name is the part of the full name after its last \<open>/\<close>.
\<close>

theorem list_models_grouped_sorted:
  assumes "sorts_by Name (sortSlice_models env)" "sorts_by fst (sortSlice_infos env)"
  shows "sorted (map fst (chat_grouped models)) \<and> distinct (map fst (chat_grouped models))
     \<and> (\<forall>g \<in> set (chat_grouped models). sorted (snd g))
     \<and> mset (group_entries (chat_grouped models)) =
         mset (map (\<lambda>i. (BaseModelID i, displayName (Name i))) models)
     \<and> chat_modelsMarkdown m models =
         ''# Available Models'' @ nl @ nl @ concat (map chat_groupText (chat_grouped models)) @
         ''**Current model:** '' @ currentModel m @ nl @ nl @
         ''To change models, type: `/model MODEL_NAME`''
     \<and> sorted (map fst (models_grouped env models)) \<and> distinct (map fst (models_grouped env models))
     \<and> (\<forall>g \<in> set (models_grouped env models). sorted (map fst (snd g)))
     \<and> mset (group_entries (models_grouped env models)) =
         mset (map (\<lambda>i. (BaseModelID i, displayName (Name i), Version i)) models)
     \<and> models_markdown env models =
         (case map models_groupText (models_grouped env models) of
            [] \<Rightarrow> []
          | first # later \<Rightarrow> first @ concat (map (\<lambda>text. ''---'' @ nl @ nl @ text) later)) @
         usageInstructions
     \<and> (CHR ''/'' \<notin> set segment \<longrightarrow>
          displayName (path @ ''/'' @ segment) = segment \<and> displayName segment = segment)"
  using chat_grouped_keys [of models] chat_grouped_names [of _ models] chat_grouped_entries [of models]
    chat_modelsMarkdown_eq [of m models] models_grouped_keys [of env models]
    models_grouped_names [OF assms(2), of _ models] models_grouped_entries [OF assms, of models]
    models_markdown_eq [of env models] displayName_last_segment [of segment path]
  by blast

lemma chat_grouped_two_models: "chat_grouped two_models = [(''a'', [''a-1'', ''a-2'']), (''b'', [''b-1''])]"
  by code_simp

lemma models_grouped_two_models:
  "models_grouped plain_env two_models =
     [(''a'', [(''a-1'', ''001''), (''a-2'', ''002'')]), (''b'', [(''b-1'', ''001'')])]"
  by code_simp

text \<open>
  Witness for C3: three models of two base ids, with \<^verbatim>\<open>sort.Slice\<close> as a stable
  sort.
\<close>

theorem list_models_grouped_sorted_witness:
  "sorts_by Name (sortSlice_models plain_env) \<and> sorts_by fst (sortSlice_infos plain_env)
   \<and> chat_grouped two_models = [(''a'', [''a-1'', ''a-2'']), (''b'', [''b-1''])]
   \<and> sorted (map fst (chat_grouped two_models))
   \<and> mset (group_entries (chat_grouped two_models)) =
       {#(''b'', ''b-1''), (''a'', ''a-2''), (''a'', ''a-1'')#}
   \<and> models_grouped plain_env two_models =
       [(''a'', [(''a-1'', ''001''), (''a-2'', ''002'')]), (''b'', [(''b-1'', ''001'')])]
   \<and> CHR ''/'' \<notin> set ''a-1'' \<and> displayName ''models/a-1'' = ''a-1''"
proof -
  have 1: "sorts_by Name (sortSlice_models plain_env)" and 2: "sorts_by fst (sortSlice_infos plain_env)"
    by (simp_all add: plain_env_def sorts_by_sort_key)
  have 3: "map (\<lambda>i. (BaseModelID i, displayName (Name i))) two_models =
           [(''b'', ''b-1''), (''a'', ''a-2''), (''a'', ''a-1'')]"
    by code_simp
  show ?thesis
    using list_models_grouped_sorted [OF 1 2, of two_models _ "''a-1''" "''models''"] 1 2 3
      chat_grouped_two_models models_grouped_two_models
    by simp
qed

lemma models_render_failure_drops_list:
  assumes "getApiKey env fl = Inr key" "NewClient b key ''gemini-1.5-pro-latest'' = Inr c"
    "ListModels b = Inr models" "RenderMarkdownWithGlamour ui (models_markdown env models) = Inl e"
  shows "models_Run ui env b fl =
           Println (nl @ RenderTitle ui '' Available Gemini Models '' @ nl) @
           Println (ErrorPrefix ui @ ''Failed to render markdown: '' @ Error_msg e)"
  using assms by (simp add: models_Run_def Let_def)

lemma generate_render_failure_prints_raw:
  assumes "\<not> listModelsGen fl" "prompt fl \<noteq> []" "getApiKey env fl = Inr key"
    "NewClient b key (modelName fl) = Inr c" "\<not> stream fl" "GenerateText b c (prompt fl) = Inr result"
    "RenderMarkdownWithGlamour ui result = Inl e" "outputFile fl = []"
  shows "\<exists>out. generate_Run ui env b fl =
           out @ Println (ErrorPrefix ui @ ''Failed to render markdown: '' @ Error_msg e) @ Println result"
  using assms by (simp add: generate_Run_def Let_def del: append.simps)

lemma failing_ui_fields:
  "ErrorPrefix failing_ui = ''x ''" "Render failing_ui style text = text"
  by (simp_all add: failing_ui_def plain_ui_def)

text \<open>
  C8, evaluated: with a renderer that always fails, the models command prints its title
  and the error notice and returns; the list of models it built, which the renderer
  rejected, is not printed, neither rendered nor raw. The generate command next to it
  prints the notice and then the raw text, for the prompt and for the response.
\<close>

theorem models_render_failure_drops_list_example:
  "ListModels good_backend = Inr two_models
   \<and> RenderMarkdownWithGlamour failing_ui (models_markdown (plain_env\<lparr>GEMINI_API_KEY := ''k''\<rparr>) two_models)
       = Inl (Error ''failed to render markdown: no style'')
   \<and> models_Run failing_ui (plain_env\<lparr>GEMINI_API_KEY := ''k''\<rparr>) good_backend no_flags =
       nl @ '' Available Gemini Models '' @ nl @ nl @
       ''x Failed to render markdown: failed to render markdown: no style'' @ nl
   \<and> generate_Run failing_ui (plain_env\<lparr>GEMINI_API_KEY := ''k''\<rparr>) good_backend (no_flags\<lparr>prompt := ''hi''\<rparr>) =
       ''x Failed to render markdown: failed to render markdown: no style'' @ nl @
       ''Prompt: hi'' @ nl @ nl @ ''Response:'' @ nl @
       ''x Failed to render markdown: failed to render markdown: no style'' @ nl @
       ''hi there'' @ nl"
  by (simp add: models_Run_def generate_Run_def getApiKey_def NewClient_def ListModels_def
      GenerateText_def responseToString_def failing_ui_fails good_backend_def hi_there_def
      plain_env_def no_flags_def Println_def RenderTitle_def failing_ui_fields Let_def)

end
